theory Spec2Isabelle
  imports Main
begin

section \<open>Strings and the character classes of the regular expressions\<close>

text \<open>
  Header values and URLs are strings of 8-bit characters (a header value read through
  the Fetch API is a byte string). The classes below are the ones the regular
  expressions of \<^verbatim>\<open>utils.ts\<close> use: \<^verbatim>\<open>\w\<close> is \<^verbatim>\<open>[A-Za-z0-9_]\<close>;
  \<^verbatim>\<open>\s\<close>, restricted to one byte, is TAB, LF, VT, FF, CR, space and U+00A0.
\<close>

definition is_word_char :: "char \<Rightarrow> bool" where
  "is_word_char c = (let n = (of_char c :: nat) in
     (48 \<le> n \<and> n \<le> 57) \<or> (65 \<le> n \<and> n \<le> 90) \<or> (97 \<le> n \<and> n \<le> 122) \<or> n = 95)"

definition is_space_char :: "char \<Rightarrow> bool" where
  "is_space_char c = (let n = (of_char c :: nat) in (9 \<le> n \<and> n \<le> 13) \<or> n = 32 \<or> n = 160)"

abbreviation dquote :: char where
  "dquote \<equiv> CHR 0x22"

definition is_value_char :: "char \<Rightarrow> bool" where
  \<comment> \<open>the class \<^verbatim>\<open>[^\s,]\<close>\<close>
  "is_value_char c = (\<not> is_space_char c \<and> c \<noteq> CHR '','')"

section \<open>The challenge parser\<close>

record WwwAuthenticateChallenge =
  scheme :: string
  realm :: "string option"
  scope :: "string option"
  error :: "string option"
  error_description :: "string option"
  resource_metadata :: "string option"

text \<open>
  One attempt of \<^verbatim>\<open>/(\w+)=(?:"([^"]*)"|([^\s,]*))/\<close> at the head of a string.
  The greedy \<^verbatim>\<open>\w+\<close> takes the whole run of word characters; a shorter run is
  followed by a word character, never by \<^verbatim>\<open>=\<close>, so backtracking cannot help.
  The result is the key, capture groups 2 and 3 (\<open>None\<close> is \<^verbatim>\<open>undefined\<close>) and the
  text after the match.
\<close>

definition match_quoted :: "string \<Rightarrow> (string \<times> string) option" where
  "match_quoted s = (case s of
       [] \<Rightarrow> None
     | c # t \<Rightarrow> if c = dquote \<and> dquote \<in> set t
                then Some (takeWhile (\<lambda>x. x \<noteq> dquote) t, tl (dropWhile (\<lambda>x. x \<noteq> dquote) t))
                else None)"

definition match_param :: "string \<Rightarrow> (string \<times> string option \<times> string option \<times> string) option" where
  "match_param s =
     (let key = takeWhile is_word_char s; r = dropWhile is_word_char s in
      if key = [] then None
      else case r of
          [] \<Rightarrow> None
        | c # r' \<Rightarrow>
            if c \<noteq> CHR ''='' then None
            else (case match_quoted r' of
                Some (v, rest) \<Rightarrow> Some (key, Some v, None, rest)
              | None \<Rightarrow> Some (key, None, Some (takeWhile is_value_char r'), dropWhile is_value_char r')))"

text \<open>\<^verbatim>\<open>match[2] || match[3]\<close>: the empty string is falsy.\<close>

definition param_value :: "string option \<Rightarrow> string option \<Rightarrow> string option" where
  "param_value m2 m3 = (case m2 of Some v \<Rightarrow> if v \<noteq> [] then Some v else m3 | None \<Rightarrow> m3)"

lemma match_quoted_shorter:
  assumes "match_quoted s = Some (v, rest)"
  shows "length rest < length s"
proof -
  from assms obtain t where s: "s = dquote # t"
    and rest: "rest = tl (dropWhile (\<lambda>x. x \<noteq> dquote) t)"
    by (auto simp: match_quoted_def split: list.splits if_splits)
  have "length (dropWhile (\<lambda>x. x \<noteq> dquote) t) \<le> length t"
    by (rule length_dropWhile_le)
  with s rest show ?thesis by simp
qed

lemma match_param_shorter: "match_param s = Some (k, m2, m3, rest) \<Longrightarrow> length rest < length s"
proof -
  assume a: "match_param s = Some (k, m2, m3, rest)"
  have d: "length (dropWhile is_word_char s) \<le> length s" by (rule length_dropWhile_le)
  from a obtain c r' where r: "dropWhile is_word_char s = c # r'"
    by (auto simp: match_param_def Let_def split: list.splits if_splits)
  from a r have "length rest \<le> length r'"
    by (auto simp: match_param_def Let_def split: list.splits if_splits option.splits
        dest!: match_quoted_shorter intro: length_dropWhile_le)
  with d r show ?thesis by simp
qed

text \<open>
  The \<^verbatim>\<open>while ((match = paramRegex.exec(headerValue)) !== null)\<close> loop: with the
  \<^verbatim>\<open>g\<close> flag each search starts where the last match ended and finds the leftmost
  position at which the expression matches.
\<close>

function scan_params :: "string \<Rightarrow> (string \<times> string option) list" where
  "scan_params [] = []"
| "scan_params (c # s) =
     (case match_param (c # s) of
        Some (key, m2, m3, rest) \<Rightarrow> (key, param_value m2 m3) # scan_params rest
      | None \<Rightarrow> scan_params s)"
  by pat_completeness auto
termination
  by (relation "measure length") (auto dest: match_param_shorter)

definition set_param :: "WwwAuthenticateChallenge \<Rightarrow> string \<times> string option \<Rightarrow> WwwAuthenticateChallenge" where
  \<comment> \<open>the \<^verbatim>\<open>switch (key)\<close>\<close>
  "set_param challenge kv = (case kv of (key, v) \<Rightarrow>
     if key = ''realm'' then challenge\<lparr>realm := v\<rparr>
     else if key = ''scope'' then challenge\<lparr>scope := v\<rparr>
     else if key = ''error'' then challenge\<lparr>error := v\<rparr>
     else if key = ''error_description'' then challenge\<lparr>error_description := v\<rparr>
     else if key = ''resource_metadata'' then challenge\<lparr>resource_metadata := v\<rparr>
     else challenge)"

definition parseWwwAuthenticate :: "string \<Rightarrow> WwwAuthenticateChallenge" where
  "parseWwwAuthenticate headerValue =
     foldl set_param
       \<lparr>scheme = takeWhile is_word_char headerValue, realm = None, scope = None, error = None,
        error_description = None, resource_metadata = None\<rparr>
       (scan_params headerValue)"


section \<open>Requests, responses and documents\<close>

text \<open>
  A \<^verbatim>\<open>Request\<close> with the properties \<^verbatim>\<open>cloneRequestWithAuth\<close> reads, and
  \<open>keepalive\<close> as one of those it does not copy. \<open>body\<close> is \<open>None\<close> for a request
  without a body (\<^verbatim>\<open>request.body\<close> is \<^verbatim>\<open>null\<close>); otherwise \<^verbatim>\<open>request.body\<close> is
  a stream of the content. A header list is the list behind a \<^verbatim>\<open>Headers\<close> object:
  names compare without regard to ASCII case.
\<close>

datatype error =
    Error string  \<comment> \<open>\<^verbatim>\<open>throw new Error(message)\<close> in the source\<close>
  | TypeError string  \<comment> \<open>thrown by a constructor or method of the platform\<close>
  | FetchRejected string  \<comment> \<open>the transport rejected: a network error\<close>
  | JsonRejected  \<comment> \<open>\<^verbatim>\<open>response.json()\<close> rejected\<close>
  | CallbackRejected string  \<comment> \<open>a configured callback threw or rejected\<close>

record request =
  url :: string
  http_method :: string
  headers :: "(string \<times> string) list"
  body :: "string option"
  referrer :: string
  referrerPolicy :: string
  mode :: string
  credentials :: string
  cache :: string
  redirect :: string
  integrity :: string
  keepalive :: bool

definition lower_char :: "char \<Rightarrow> char" where
  "lower_char c =
     (case map_of (zip ''ABCDEFGHIJKLMNOPQRSTUVWXYZ'' ''abcdefghijklmnopqrstuvwxyz'') c of
        Some l \<Rightarrow> l
      | None \<Rightarrow> c)"

definition lower :: "string \<Rightarrow> string" where
  "lower s = map lower_char s"

definition same_name :: "string \<Rightarrow> string \<Rightarrow> bool" where
  "same_name a b = (lower a = lower b)"

fun combine :: "string list \<Rightarrow> string" where
  "combine [] = []"
| "combine [v] = v"
| "combine (v # w # vs) = v @ '', '' @ combine (w # vs)"

definition headers_get :: "(string \<times> string) list \<Rightarrow> string \<Rightarrow> string option" where
  \<comment> \<open>\<^verbatim>\<open>Headers.get\<close>: the values under the name, joined; \<open>None\<close> is \<^verbatim>\<open>null\<close>\<close>
  "headers_get hs name =
     (case filter (\<lambda>h. same_name (fst h) name) hs of
        [] \<Rightarrow> None
      | h # hs' \<Rightarrow> Some (combine (map snd (h # hs'))))"

fun replace_header :: "(string \<times> string) list \<Rightarrow> string \<Rightarrow> string \<Rightarrow> (string \<times> string) list" where
  \<comment> \<open>the first header of that name takes the value, the others go; with no such header
      the pair is appended\<close>
  "replace_header [] name v = [(name, v)]"
| "replace_header (h # hs) name v =
     (if same_name (fst h) name
      then (fst h, v) # filter (\<lambda>h'. \<not> same_name (fst h') name) hs
      else h # replace_header hs name v)"

definition is_http_whitespace :: "char \<Rightarrow> bool" where
  \<comment> \<open>TAB, LF, CR and space\<close>
  "is_http_whitespace c = (c = CHR 0x09 \<or> c = CHR 0x0A \<or> c = CHR 0x0D \<or> c = CHR '' '')"

definition normalize_value :: "string \<Rightarrow> string" where
  \<comment> \<open>a header value loses its leading and trailing HTTP whitespace\<close>
  "normalize_value v =
     rev (dropWhile is_http_whitespace (rev (dropWhile is_http_whitespace v)))"

definition valid_value :: "string \<Rightarrow> bool" where
  \<comment> \<open>a normalized value must hold no NUL, LF or CR\<close>
  "valid_value v = list_all (\<lambda>c. c \<noteq> CHR 0x00 \<and> c \<noteq> CHR 0x0A \<and> c \<noteq> CHR 0x0D) v"

definition headers_set :: "(string \<times> string) list \<Rightarrow> string \<Rightarrow> string \<Rightarrow> error + (string \<times> string) list" where
  \<comment> \<open>\<^verbatim>\<open>Headers.set\<close>, for a name that is a valid token: the value is normalized, an
      invalid value throws\<close>
  "headers_set hs name v =
     (let v' = normalize_value v in
      if valid_value v' then Inr (replace_header hs name v')
      else Inl (TypeError ''Headers.set: invalid header value''))"

text \<open>
  The documents, after the interfaces of \<^verbatim>\<open>types.ts\<close>, with the fields the middleware
  reads. \<open>authorization_servers\<close> and \<open>token_endpoint\<close> are optional here because the code
  tests for their absence. \<open>expires_in\<close> is a whole number of seconds.
\<close>

record ProtectedResourceMetadata =
  resource :: string
  authorization_servers :: "string list option"

record AuthorizationServerMetadata =
  issuer :: string
  token_endpoint :: "string option"

record TokenExchangeResponse =
  issued_token_type :: string
  id_jag :: string  \<comment> \<open>the field \<^verbatim>\<open>access_token\<close> of the token-exchange response\<close>

record AccessTokenResponse =
  access_token :: string
  token_type :: string
  expires_in :: "int option"
  granted_scope :: "string option"  \<comment> \<open>the field \<^verbatim>\<open>scope\<close>\<close>
  refresh_token :: "string option"

record OAuthErrorResponse =
  error_code :: string  \<comment> \<open>the field \<^verbatim>\<open>error\<close>\<close>
  error_text :: "string option"  \<comment> \<open>the field \<^verbatim>\<open>error_description\<close>\<close>

datatype json =
    JsonPRM ProtectedResourceMetadata
  | JsonASM AuthorizationServerMetadata
  | JsonTXR TokenExchangeResponse
  | JsonATR AccessTokenResponse
  | JsonOER OAuthErrorResponse

record response =
  status :: nat
  statusText :: string
  response_headers :: "(string \<times> string) list"
  json_body :: "json option"  \<comment> \<open>what \<^verbatim>\<open>response.json()\<close> resolves to; \<open>None\<close> when it rejects\<close>

definition ok :: "response \<Rightarrow> bool" where
  "ok r = (200 \<le> status r \<and> status r \<le> 299)"

definition isUnauthorized :: "response \<Rightarrow> bool" where
  "isUnauthorized r = (status r = 401)"

fun show_nat :: "nat \<Rightarrow> string" where
  "show_nat n =
     (if n < 10 then [''0123456789'' ! n] else show_nat (n div 10) @ [''0123456789'' ! (n mod 10)])"

definition extractOAuthError :: "response \<Rightarrow> string" where
  "extractOAuthError r =
     (let status_line = ''HTTP '' @ show_nat (status r) @ '' '' @ statusText r in
      case json_body r of
        Some (JsonOER errorData) \<Rightarrow>
          if error_code errorData \<noteq> []
          then (case error_text errorData of
                  Some d \<Rightarrow> if d \<noteq> [] then d else error_code errorData
                | None \<Rightarrow> error_code errorData)
          else status_line
      | _ \<Rightarrow> status_line)"

definition buildFormData :: "(string \<times> string option) list \<Rightarrow> (string \<times> string) list" where
  \<comment> \<open>the pairs appended to the \<^verbatim>\<open>URLSearchParams\<close>, before percent-encoding\<close>
  "buildFormData data = concat (map (\<lambda>kv. case snd kv of None \<Rightarrow> [] | Some v \<Rightarrow> [(fst kv, v)]) data)"

text \<open>
  \<^verbatim>\<open>cloneRequestWithAuth\<close> first sets the header and then calls \<^verbatim>\<open>new Request\<close> with
  \<^verbatim>\<open>body: request.body\<close> and no \<^verbatim>\<open>duplex\<close> member. For a stream as body the
  constructor requires that member and throws a \<^verbatim>\<open>TypeError\<close> without it, so the clone
  of a request that has a body throws.
\<close>

definition cloneRequestWithAuth :: "request \<Rightarrow> string \<Rightarrow> error + request" where
  "cloneRequestWithAuth r accessToken =
     (case headers_set (headers r) ''Authorization'' (''Bearer '' @ accessToken) of
        Inl e \<Rightarrow> Inl e
      | Inr hs \<Rightarrow>
          (case body r of
             Some content \<Rightarrow> Inl (TypeError ''Request: duplex is required for a stream body'')
           | None \<Rightarrow>
               Inr \<lparr>url = url r, http_method = http_method r, headers = hs, body = None,
                    referrer = referrer r, referrerPolicy = referrerPolicy r, mode = mode r,
                    credentials = credentials r, cache = cache r, redirect = redirect r,
                    integrity = integrity r, keepalive = False\<rparr>))"

definition strip_trailing_slash :: "string \<Rightarrow> string" where
  \<comment> \<open>\<^verbatim>\<open>issuerUrl.replace(/\/$/, '')\<close>\<close>
  "strip_trailing_slash s = (if s \<noteq> [] \<and> last s = CHR ''/'' then butlast s else s)"


section \<open>The middleware's state and its collaborators\<close>

datatype fetch_call =
    FetchRequest request  \<comment> \<open>\<^verbatim>\<open>fetchFn(request)\<close>\<close>
  | FetchUrl string  \<comment> \<open>\<^verbatim>\<open>fetchFn(url)\<close>, a GET\<close>
  | FetchPost string "(string \<times> string) list"  \<comment> \<open>a form-encoded POST\<close>

datatype event =
    Fetch fetch_call
  | GetIdToken
  | GetCachedAccessToken string
  | OnAccessTokenReceived AccessTokenResponse

text \<open>
  Every collaborator answers as a function of the calls made so far, so that a resource
  may answer 401 first and 200 to the retry. \<open>Date_now\<close> is the clock and \<open>URL_origin\<close>
  is \<^verbatim>\<open>new URL(u).origin\<close>; both belong to the platform and are parameters here.
\<close>

record CrossAppAccessConfig =
  getIdToken :: "event list \<Rightarrow> error + string"
  idpIssuerUrl :: string
  idpClientId :: string
  idpClientSecret :: "string option"
  mcpClientId :: string
  mcpClientSecret :: "string option"
  onAccessTokenReceived :: "(event list \<Rightarrow> AccessTokenResponse \<Rightarrow> error + unit) option"
  getCachedAccessToken :: "(event list \<Rightarrow> string \<Rightarrow> error + string option) option"

record env =
  config :: CrossAppAccessConfig
  fetchFn :: "event list \<Rightarrow> fetch_call \<Rightarrow> error + response"
  Date_now :: "event list \<Rightarrow> int"
  URL_origin :: "string \<Rightarrow> string"

record cached_token =
  token :: string
  expiresAt :: int

text \<open>
  In the run of one caller a pending promise is the outcome it settles with. The
  interleaving of several callers is the subject of a later section.
\<close>

record state =
  tokenCache :: "string \<rightharpoonup> cached_token"
  pendingTokenRequests :: "string \<rightharpoonup> (error + string)"
  trace :: "event list"

type_synonym 'a async = "state \<Rightarrow> (error + 'a) \<times> state"

definition resolve :: "'a \<Rightarrow> 'a async" where
  "resolve x s = (Inr x, s)"

definition reject :: "error \<Rightarrow> 'a async" where
  "reject e s = (Inl e, s)"

definition await :: "'a async \<Rightarrow> ('a \<Rightarrow> 'b async) \<Rightarrow> 'b async" where
  "await m f s = (case m s of (Inl e, s') \<Rightarrow> (Inl e, s') | (Inr x, s') \<Rightarrow> f x s')"

definition catch :: "'a async \<Rightarrow> 'a option async" where
  \<comment> \<open>\<^verbatim>\<open>try { ... } catch { }\<close> with an empty handler\<close>
  "catch m s = (case m s of (Inl e, s') \<Rightarrow> (Inr None, s') | (Inr x, s') \<Rightarrow> (Inr (Some x), s'))"

definition call_fetchFn :: "env \<Rightarrow> fetch_call \<Rightarrow> response async" where
  "call_fetchFn env c s = (fetchFn env (trace s) c, s\<lparr>trace := trace s @ [Fetch c]\<rparr>)"

definition call_getIdToken :: "env \<Rightarrow> string async" where
  "call_getIdToken env s = (getIdToken (config env) (trace s), s\<lparr>trace := trace s @ [GetIdToken]\<rparr>)"

definition call_onAccessTokenReceived :: "env \<Rightarrow> AccessTokenResponse \<Rightarrow> unit async" where
  "call_onAccessTokenReceived env tokenResponse s =
     (case onAccessTokenReceived (config env) of
        None \<Rightarrow> (Inr (), s)
      | Some hook \<Rightarrow>
          (hook (trace s) tokenResponse, s\<lparr>trace := trace s @ [OnAccessTokenReceived tokenResponse]\<rparr>))"

definition call_getCachedAccessToken :: "env \<Rightarrow> string \<Rightarrow> string option async" where
  "call_getCachedAccessToken env resourceUrl s =
     (case getCachedAccessToken (config env) of
        None \<Rightarrow> (Inr None, s)
      | Some lookup \<Rightarrow>
          (lookup (trace s) resourceUrl, s\<lparr>trace := trace s @ [GetCachedAccessToken resourceUrl]\<rparr>))"

definition date_now :: "env \<Rightarrow> int async" where
  "date_now env s = (Inr (Date_now env (trace s)), s)"

definition cache_get :: "string \<Rightarrow> cached_token option async" where
  "cache_get resourceUrl s = (Inr (tokenCache s resourceUrl), s)"

definition cache_set :: "string \<Rightarrow> cached_token \<Rightarrow> unit async" where
  "cache_set resourceUrl entry s = (Inr (), s\<lparr>tokenCache := (tokenCache s)(resourceUrl \<mapsto> entry)\<rparr>)"

definition cache_delete :: "string \<Rightarrow> unit async" where
  "cache_delete resourceUrl s = (Inr (), s\<lparr>tokenCache := (tokenCache s)(resourceUrl := None)\<rparr>)"

definition pending_get :: "string \<Rightarrow> (error + string) option async" where
  "pending_get resourceUrl s = (Inr (pendingTokenRequests s resourceUrl), s)"

definition pending_delete :: "string \<Rightarrow> state \<Rightarrow> state" where
  "pending_delete resourceUrl s =
     s\<lparr>pendingTokenRequests := (pendingTokenRequests s)(resourceUrl := None)\<rparr>"

definition registering :: "string \<Rightarrow> string async \<Rightarrow> string async" where
  \<comment> \<open>\<^verbatim>\<open>tokenPromise = m; pendingTokenRequests.set(resourceUrl, tokenPromise)\<close>: the promise
      is stored as the outcome it settles with\<close>
  "registering resourceUrl m s =
     (case m s of
        (promise, s') \<Rightarrow>
          (promise, s'\<lparr>pendingTokenRequests := (pendingTokenRequests s')(resourceUrl \<mapsto> promise)\<rparr>))"

definition try_sync :: "error + 'a \<Rightarrow> 'a async" where
  \<comment> \<open>a call that returns at once or throws\<close>
  "try_sync result s = (result, s)"

definition settled :: "error + 'a \<Rightarrow> 'a async" where
  \<comment> \<open>awaiting a promise that settles with the given outcome\<close>
  "settled outcome s = (outcome, s)"

definition try_finally :: "'a async \<Rightarrow> (state \<Rightarrow> state) \<Rightarrow> 'a async" where
  \<comment> \<open>\<^verbatim>\<open>try { return await m } finally { cleanup }\<close>\<close>
  "try_finally m cleanup s = (case m s of (outcome, s') \<Rightarrow> (outcome, cleanup s'))"

definition response_json :: "response \<Rightarrow> json async" where
  "response_json r = (case json_body r of None \<Rightarrow> reject JsonRejected | Some j \<Rightarrow> resolve j)"

definition getResourceUrl :: "env \<Rightarrow> string \<Rightarrow> string" where
  \<comment> \<open>of a request's URL\<close>
  "getResourceUrl env u = URL_origin env u"

section \<open>Metadata discovery\<close>

definition try_discovery :: "env \<Rightarrow> string \<Rightarrow> json option async" where
  \<comment> \<open>one \<^verbatim>\<open>try { ... } catch (error) { }\<close> block of the function below\<close>
  "try_discovery env metadataUrl =
     await (catch (await (call_fetchFn env (FetchUrl metadataUrl)) (\<lambda>r.
              if ok r then await (response_json r) (\<lambda>j. resolve (Some j))  \<comment> \<open>\<^verbatim>\<open>return await response.json()\<close>\<close>
              else resolve None)))  \<comment> \<open>falls out of the block\<close>
       (\<lambda>outcome. resolve (case outcome of None \<Rightarrow> None | Some returned \<Rightarrow> returned))"

definition oauth2_path :: string where
  "oauth2_path = ''/.well-known/oauth-authorization-server''"

definition oidc_path :: string where
  "oidc_path = ''/.well-known/openid-configuration''"

definition discoverAuthorizationServerMetadata :: "env \<Rightarrow> string \<Rightarrow> json async" where
  "discoverAuthorizationServerMetadata env issuerUrl =
     (let baseUrl = strip_trailing_slash issuerUrl in
      await (try_discovery env (baseUrl @ oauth2_path)) (\<lambda>first.
        case first of
          Some metadata \<Rightarrow> resolve metadata
        | None \<Rightarrow>
            await (try_discovery env (baseUrl @ oidc_path)) (\<lambda>second.
              case second of
                Some metadata \<Rightarrow> resolve metadata
              | None \<Rightarrow> reject (Error (''Failed to discover authorization server metadata for '' @ issuerUrl)))))"


section \<open>The token exchanger\<close>

definition truthy :: "string option \<Rightarrow> bool" where
  \<comment> \<open>of a value that is a string, \<^verbatim>\<open>null\<close> or \<^verbatim>\<open>undefined\<close>\<close>
  "truthy v = (case v of None \<Rightarrow> False | Some x \<Rightarrow> x \<noteq> [])"

definition id_jag_type :: string where
  "id_jag_type = ''urn:ietf:params:oauth:token-type:id-jag''"

definition fetchProtectedResourceMetadata :: "env \<Rightarrow> string \<Rightarrow> json async" where
  "fetchProtectedResourceMetadata env metadataUrl =
     await (call_fetchFn env (FetchUrl metadataUrl)) (\<lambda>r.
       if \<not> ok r
       then reject (Error (''Failed to fetch protected resource metadata: '' @ extractOAuthError r))
       else response_json r)"

definition tokenExchangeRequest ::
  "env \<Rightarrow> string \<Rightarrow> string \<Rightarrow> string \<Rightarrow> string option \<Rightarrow> (string \<times> string option) list" where
  \<comment> \<open>the object \<^verbatim>\<open>requestBody\<close> of \<^verbatim>\<open>performTokenExchange\<close>, keys in insertion order\<close>
  "tokenExchangeRequest env audience resource' idToken scope' =
     [(''grant_type'', Some ''urn:ietf:params:oauth:grant-type:token-exchange''),
      (''requested_token_type'', Some ''urn:ietf:params:oauth:token-type:id-jag''),
      (''audience'', Some audience),
      (''resource'', Some resource'),
      (''subject_token'', Some idToken),
      (''subject_token_type'', Some ''urn:ietf:params:oauth:token-type:id_token''),
      (''client_id'', Some (idpClientId (config env))),
      (''client_secret'', idpClientSecret (config env))]
     @ (if truthy scope' then [(''scope'', scope')] else [])"

definition jwtBearerGrantRequest :: "env \<Rightarrow> string \<Rightarrow> (string \<times> string option) list" where
  \<comment> \<open>the object \<^verbatim>\<open>requestBody\<close> of \<^verbatim>\<open>performJwtBearerGrant\<close>\<close>
  "jwtBearerGrantRequest env idJag =
     [(''grant_type'', Some ''urn:ietf:params:oauth:grant-type:jwt-bearer''),
      (''assertion'', Some idJag),
      (''client_id'', Some (mcpClientId (config env))),
      (''client_secret'', mcpClientSecret (config env))]"

definition performTokenExchange ::
  "env \<Rightarrow> string \<Rightarrow> string \<Rightarrow> string \<Rightarrow> string option \<Rightarrow> string async" where
  "performTokenExchange env audience resource' tokenEndpoint scope' =
     await (call_getIdToken env) (\<lambda>idToken.
       let requestBody = tokenExchangeRequest env audience resource' idToken scope'
       in await (call_fetchFn env
                   (FetchPost (idpIssuerUrl (config env) @ ''/oauth2/token'') (buildFormData requestBody)))
            (\<lambda>r.
              if \<not> ok r then reject (Error (''Token exchange failed: '' @ extractOAuthError r))
              else await (response_json r) (\<lambda>tokenResponse.
                case tokenResponse of
                  JsonTXR t \<Rightarrow>
                    if issued_token_type t \<noteq> id_jag_type
                    then reject (Error (''Unexpected token type: '' @ issued_token_type t))
                    else resolve (id_jag t)
                | _ \<Rightarrow> reject (Error ''Unexpected token type: undefined''))))"

text \<open>
  A 2xx body of the bearer grant is read at its declared type \<open>AccessTokenResponse\<close>; a
  body of another shape is outside that type and ends the model's run with an error.
\<close>

definition performJwtBearerGrant :: "env \<Rightarrow> string \<Rightarrow> string \<Rightarrow> string async" where
  "performJwtBearerGrant env idJag tokenEndpoint =
     (let requestBody = jwtBearerGrantRequest env idJag
      in await (call_fetchFn env (FetchPost tokenEndpoint (buildFormData requestBody))) (\<lambda>r.
           if \<not> ok r then reject (Error (''JWT bearer grant failed: '' @ extractOAuthError r))
           else await (response_json r) (\<lambda>j.
             case j of
               JsonATR tokenResponse \<Rightarrow>
                 (let expiresIn = (case expires_in tokenResponse of
                                     None \<Rightarrow> 3600
                                   | Some n \<Rightarrow> if n \<noteq> 0 then n else 3600)
                  in await (date_now env) (\<lambda>now.
                       let expiresAt = now + expiresIn * 1000 - 60000 in
                       await (cache_set (getResourceUrl env tokenEndpoint)
                                \<lparr>token = access_token tokenResponse, expiresAt = expiresAt\<rparr>) (\<lambda>_.
                         await (call_onAccessTokenReceived env tokenResponse) (\<lambda>_.
                           resolve (access_token tokenResponse)))))
             | _ \<Rightarrow> reject (Error ''body is not an AccessTokenResponse''))))"

definition performTokenAcquisition ::
  "env \<Rightarrow> string \<Rightarrow> string \<Rightarrow> string option \<Rightarrow> string async" where
  "performTokenAcquisition env resourceUrl metadataUrl scope' =
     await (fetchProtectedResourceMetadata env metadataUrl) (\<lambda>metadata.
       case metadata of
         JsonPRM m \<Rightarrow>
           (case authorization_servers m of
              None \<Rightarrow> reject (Error ''No authorization servers found in protected resource metadata'')
            | Some [] \<Rightarrow> reject (Error ''No authorization servers found in protected resource metadata'')
            | Some (authServerIssuer # _) \<Rightarrow>
                await (discoverAuthorizationServerMetadata env authServerIssuer) (\<lambda>authServerMetadata.
                  case (case authServerMetadata of JsonASM a \<Rightarrow> token_endpoint a | _ \<Rightarrow> None) of
                    None \<Rightarrow> reject (Error ''Authorization server metadata missing token_endpoint'')
                  | Some tokenEndpoint \<Rightarrow>
                      if tokenEndpoint = []
                      then reject (Error ''Authorization server metadata missing token_endpoint'')
                      else await (performTokenExchange env authServerIssuer (resource m) tokenEndpoint scope')
                             (\<lambda>idJag. performJwtBearerGrant env idJag tokenEndpoint)))
       | _ \<Rightarrow> reject (Error ''No authorization servers found in protected resource metadata''))"

section \<open>The token cache and the interceptor\<close>

definition acquireAccessToken ::
  "env \<Rightarrow> string \<Rightarrow> string \<Rightarrow> string option \<Rightarrow> string async" where
  "acquireAccessToken env resourceUrl metadataUrl scope' =
     await (pending_get resourceUrl) (\<lambda>pending.
       case pending of
         Some promise \<Rightarrow> settled promise
       | None \<Rightarrow>
           try_finally
             (registering resourceUrl (performTokenAcquisition env resourceUrl metadataUrl scope'))
             (pending_delete resourceUrl))"

definition getCachedToken :: "env \<Rightarrow> string \<Rightarrow> string option async" where
  "getCachedToken env resourceUrl =
     await (call_getCachedAccessToken env resourceUrl) (\<lambda>external.
       if truthy external then resolve external
       else await (cache_get resourceUrl) (\<lambda>entry.
         case entry of
           None \<Rightarrow> resolve None
         | Some cached \<Rightarrow>
             await (date_now env) (\<lambda>now.
               if expiresAt cached > now then resolve (Some (token cached)) else resolve None)))"

definition challenge_header :: string where
  "challenge_header = ''WWW-Authenticate''"

definition handleUnauthorized :: "env \<Rightarrow> request \<Rightarrow> response \<Rightarrow> response async" where
  "handleUnauthorized env request' response' =
     (case headers_get (response_headers response') challenge_header of
        None \<Rightarrow> resolve response'
      | Some wwwAuth \<Rightarrow>
          if wwwAuth = [] then resolve response'
          else
            let challenge = parseWwwAuthenticate wwwAuth in
            if scheme challenge \<noteq> ''Bearer'' then resolve response'
            else
              (case resource_metadata challenge of
                 None \<Rightarrow> reject (Error ''WWW-Authenticate header missing resource_metadata URL'')
               | Some metadataUrl \<Rightarrow>
                   if metadataUrl = []
                   then reject (Error ''WWW-Authenticate header missing resource_metadata URL'')
                   else
                     await (acquireAccessToken env (getResourceUrl env (url request'))
                              metadataUrl (scope challenge))
                       (\<lambda>accessToken.
                         await (try_sync (cloneRequestWithAuth request' accessToken))
                           (\<lambda>requestWithAuth. call_fetchFn env (FetchRequest requestWithAuth)))))"

definition send_bare :: "env \<Rightarrow> request \<Rightarrow> response async" where
  \<comment> \<open>the second half of \<^verbatim>\<open>fetch\<close>: the request as the caller made it\<close>
  "send_bare env request' =
     await (call_fetchFn env (FetchRequest request')) (\<lambda>response'.
       if \<not> isUnauthorized response' then resolve response'
       else handleUnauthorized env request' response')"

definition fetch :: "env \<Rightarrow> request \<Rightarrow> response async" where
  "fetch env request' =
     (let resourceUrl = getResourceUrl env (url request') in
      await (getCachedToken env resourceUrl) (\<lambda>cachedToken.
        case cachedToken of
          None \<Rightarrow> send_bare env request'
        | Some t \<Rightarrow>
            if t = [] then send_bare env request'
            else await (try_sync (cloneRequestWithAuth request' t)) (\<lambda>requestWithAuth.
                   await (call_fetchFn env (FetchRequest requestWithAuth)) (\<lambda>response'.
                     if \<not> isUnauthorized response' then resolve response'
                     else await (cache_delete resourceUrl) (\<lambda>_. send_bare env request')))))"

definition clearTokenCache :: "state \<Rightarrow> state" where
  "clearTokenCache s = s\<lparr>tokenCache := Map.empty\<rparr>"

definition clearTokenForResource :: "string \<Rightarrow> state \<Rightarrow> state" where
  "clearTokenForResource resourceUrl s = s\<lparr>tokenCache := (tokenCache s)(resourceUrl := None)\<rparr>"


section \<open>A sample deployment\<close>

text \<open>
  The deployment of \<^verbatim>\<open>examples/basic.ts\<close>: the resource at \<^verbatim>\<open>mcp.example.com\<close>, the
  identity provider at \<^verbatim>\<open>idp.example.com\<close>, and an authorization server on an origin of
  its own. The resource accepts the token \<^verbatim>\<open>good\<close> and challenges everything else.
\<close>

definition simple_origin :: "string \<Rightarrow> string" where
  \<comment> \<open>scheme and authority of a URL written \<^verbatim>\<open>scheme://authority/...\<close>\<close>
  "simple_origin u =
     (let sch = takeWhile (\<lambda>c. c \<noteq> CHR '':'') u; rest = drop (length sch + 3) u
      in sch @ ''://'' @ takeWhile (\<lambda>c. c \<noteq> CHR ''/'' \<and> c \<noteq> CHR ''?'' \<and> c \<noteq> CHR ''#'') rest)"

definition plain_response :: "nat \<Rightarrow> string \<Rightarrow> response" where
  "plain_response n t = \<lparr>status = n, statusText = t, response_headers = [], json_body = None\<rparr>"

definition json_response :: "json \<Rightarrow> response" where
  "json_response j = \<lparr>status = 200, statusText = ''OK'', response_headers = [], json_body = Some j\<rparr>"

definition challenge_with :: "string \<Rightarrow> response" where
  "challenge_with h =
     \<lparr>status = 401, statusText = ''Unauthorized'',
      response_headers = [(''www-authenticate'', h)], json_body = None\<rparr>"

definition demo_metadata_url :: string where
  "demo_metadata_url = ''https://mcp.example.com/.well-known/oauth-protected-resource''"

definition demo_challenge :: response where
  "demo_challenge = challenge_with (''Bearer resource_metadata='' @ [dquote] @ demo_metadata_url @ [dquote])"

definition demo_token_response :: AccessTokenResponse where
  "demo_token_response =
     \<lparr>access_token = ''good'', token_type = ''Bearer'', expires_in = Some 3600,
      granted_scope = None, refresh_token = None\<rparr>"

definition demo_fetchFn :: "event list \<Rightarrow> fetch_call \<Rightarrow> error + response" where
  "demo_fetchFn history c =
     (case c of
        FetchRequest r \<Rightarrow>
          if headers_get (headers r) ''authorization'' = Some ''Bearer good''
          then Inr (plain_response 200 ''OK'') else Inr demo_challenge
      | FetchUrl u \<Rightarrow>
          if u = demo_metadata_url
          then Inr (json_response (JsonPRM \<lparr>resource = ''https://mcp.example.com'',
                      authorization_servers = Some [''https://auth.example.com/'']\<rparr>))
          else if u = ''https://auth.example.com/.well-known/oauth-authorization-server''
          then Inr (json_response (JsonASM \<lparr>issuer = ''https://auth.example.com'',
                      token_endpoint = Some ''https://auth.example.com/oauth2/token''\<rparr>))
          else Inr (plain_response 404 ''Not Found'')
      | FetchPost u form \<Rightarrow>
          if u = ''https://idp.example.com/oauth2/token''
          then Inr (json_response (JsonTXR \<lparr>issued_token_type = id_jag_type, id_jag = ''jag''\<rparr>))
          else if u = ''https://auth.example.com/oauth2/token''
          then Inr (json_response (JsonATR demo_token_response))
          else Inr (plain_response 404 ''Not Found''))"

definition demo_config :: CrossAppAccessConfig where
  "demo_config =
     \<lparr>getIdToken = (\<lambda>history. Inr ''id-token''), idpIssuerUrl = ''https://idp.example.com'',
      idpClientId = ''idp-client'', idpClientSecret = None, mcpClientId = ''mcp-client'',
      mcpClientSecret = None, onAccessTokenReceived = None, getCachedAccessToken = None\<rparr>"

definition demo_env :: env where
  "demo_env =
     \<lparr>config = demo_config, fetchFn = demo_fetchFn,
      Date_now = (\<lambda>history. 1000000 * int (length history)), URL_origin = simple_origin\<rparr>"

definition demo_request :: request where
  "demo_request =
     \<lparr>url = ''https://mcp.example.com/api/tools'', http_method = ''GET'',
      headers = [(''Accept'', ''application/json'')], body = None,
      referrer = ''about:client'', referrerPolicy = [], mode = ''cors'',
      credentials = ''same-origin'', cache = ''default'', redirect = ''follow'',
      integrity = [], keepalive = False\<rparr>"

definition init_state :: state where
  "init_state = \<lparr>tokenCache = Map.empty, pendingTokenRequests = Map.empty, trace = []\<rparr>"


definition grant_call :: "env \<Rightarrow> string \<Rightarrow> string \<Rightarrow> fetch_call" where
  \<comment> \<open>the POST that \<^verbatim>\<open>performJwtBearerGrant\<close> sends\<close>
  "grant_call env idJag tokenEndpoint =
     FetchPost tokenEndpoint (buildFormData (jwtBearerGrantRequest env idJag))"

definition demo_token_endpoint :: string where
  "demo_token_endpoint = ''https://auth.example.com/oauth2/token''"

definition failing_hook_env :: env where
  \<comment> \<open>the sample deployment with a notification hook that rejects\<close>
  "failing_hook_env =
     demo_env\<lparr>config := demo_config\<lparr>onAccessTokenReceived :=
       Some (\<lambda>history tokenResponse. Inl (CallbackRejected ''storage unavailable''))\<rparr>\<rparr>"

definition usable :: "error + response \<Rightarrow> json option" where
  \<comment> \<open>what one discovery attempt yields: the parsed body of a 2xx answer\<close>
  "usable answer = (case answer of Inl e \<Rightarrow> None | Inr r \<Rightarrow> if ok r then json_body r else None)"

definition unparsable_first_env :: env where
  \<comment> \<open>the sample deployment, except that the first discovery path answers 200 with a
      body that is not JSON and the second path serves the metadata\<close>
  "unparsable_first_env =
     demo_env\<lparr>fetchFn := (\<lambda>history c.
       if c = FetchUrl ''https://auth.example.com/.well-known/oauth-authorization-server''
       then Inr (plain_response 200 ''OK'')
       else if c = FetchUrl ''https://auth.example.com/.well-known/openid-configuration''
       then Inr (json_response (JsonASM \<lparr>issuer = ''https://auth.example.com'',
                   token_endpoint = Some demo_token_endpoint\<rparr>))
       else demo_fetchFn history c)\<rparr>"

definition sends :: "event list \<Rightarrow> request list" where
  \<comment> \<open>the requests handed to the transport as \<^verbatim>\<open>Request\<close> objects, oldest first: the calls
      to the target resource\<close>
  "sends history = concat (map (\<lambda>e. case e of Fetch (FetchRequest r) \<Rightarrow> [r] | _ \<Rightarrow> []) history)"

definition quiet :: "'a async \<Rightarrow> bool" where
  "quiet m = (\<forall>s. sends (trace (snd (m s))) = sends (trace s))"

definition emits :: "'a async \<Rightarrow> nat \<Rightarrow> request set \<Rightarrow> bool" where
  "emits m k A =
     (\<forall>s. \<exists>new. sends (trace (snd (m s))) = sends (trace s) @ new \<and> length new \<le> k \<and> set new \<subseteq> A)"

definition cache_hit :: "env \<Rightarrow> request \<Rightarrow> state \<Rightarrow> bool" where
  \<comment> \<open>the test \<^verbatim>\<open>if (cachedToken)\<close> of \<^verbatim>\<open>fetch\<close>\<close>
  "cache_hit env request' s =
     (case fst (getCachedToken env (getResourceUrl env (url request')) s) of
        Inr (Some t) \<Rightarrow> t \<noteq> []
      | _ \<Rightarrow> False)"

definition stale_state :: state where
  \<comment> \<open>a cache that holds, for the resource, a token the resource no longer accepts\<close>
  "stale_state =
     init_state\<lparr>tokenCache := [''https://mcp.example.com'' \<mapsto> \<lparr>token = ''stale'', expiresAt = 1000000000\<rparr>]\<rparr>"

definition authorized_request :: request where
  \<comment> \<open>a request that already carries a credential of the caller's\<close>
  "authorized_request = demo_request\<lparr>headers := [(''authorization'', ''Basic abc''), (''Accept'', ''text/plain'')]\<rparr>"

text \<open>
  Challenges as they are written: a scheme, then parameters \<^verbatim>\<open>key=value\<close> or
  \<^verbatim>\<open>key="value"\<close>, each after a run of whitespace and commas.
\<close>

record auth_param =
  p_sep :: string  \<comment> \<open>the whitespace and commas written before the parameter\<close>
  p_key :: string
  p_quoted :: bool
  p_value :: string

definition render_param :: "auth_param \<Rightarrow> string" where
  "render_param p =
     p_sep p @ p_key p @ ''='' @
     (if p_quoted p then [dquote] @ p_value p @ [dquote] else p_value p)"

definition render :: "string \<Rightarrow> auth_param list \<Rightarrow> string" where
  \<comment> \<open>a challenge as written on the wire: the scheme, then the parameters\<close>
  "render sch ps = sch @ concat (map render_param ps)"

definition valid_param :: "auth_param \<Rightarrow> bool" where
  "valid_param p =
     (p_sep p \<noteq> [] \<and> list_all (\<lambda>c. \<not> is_value_char c) (p_sep p)
      \<and> p_key p \<noteq> [] \<and> list_all is_word_char (p_key p)
      \<and> (if p_quoted p then p_value p \<noteq> [] \<and> dquote \<notin> set (p_value p)
          else list_all (\<lambda>c. is_value_char c \<and> c \<noteq> dquote) (p_value p)))"

definition recognized :: "string list" where
  "recognized = [''realm'', ''scope'', ''error'', ''error_description'', ''resource_metadata'']"

definition field :: "string \<Rightarrow> WwwAuthenticateChallenge \<Rightarrow> string option" where
  \<comment> \<open>the property of the challenge object with the given name\<close>
  "field k c =
     (if k = ''realm'' then realm c
      else if k = ''scope'' then scope c
      else if k = ''error'' then error c
      else if k = ''error_description'' then error_description c
      else if k = ''resource_metadata'' then resource_metadata c
      else None)"

definition declared :: "auth_param list \<Rightarrow> string \<Rightarrow> string option" where
  \<comment> \<open>the value the header gives a key: that of its last occurrence\<close>
  "declared ps k = map_of (rev (map (\<lambda>p. (p_key p, p_value p)) ps)) k"

definition demo_params :: "auth_param list" where
  "demo_params =
     [\<lparr>p_sep = '' '', p_key = ''scope'', p_quoted = False, p_value = ''read''\<rparr>,
      \<lparr>p_sep = '', '', p_key = ''x_trace'', p_quoted = True, p_value = ''abc def''\<rparr>,
      \<lparr>p_sep = '','', p_key = ''resource_metadata'', p_quoted = True,
        p_value = ''https://mcp.example.com/meta''\<rparr>,
      \<lparr>p_sep = '', '', p_key = ''realm'', p_quoted = True, p_value = ''mcp''\<rparr>]"

section \<open>Concurrent callers of \<^verbatim>\<open>acquireAccessToken\<close>\<close>

text \<open>
  JavaScript runs each stretch of code between two \<^verbatim>\<open>await\<close>s without interruption,
  so callers interleave only at those points. \<^verbatim>\<open>acquireAccessToken\<close> has two stretches.
  The first (\<open>call\<close>) reads the map; when it finds a promise it returns it; otherwise it
  starts \<^verbatim>\<open>performTokenAcquisition\<close>, stores the promise under the key and waits for it.
  The second (\<open>resume\<close> of an owner) runs once the promise has settled: the \<^verbatim>\<open>finally\<close>
  block deletes the key, and the outcome goes to the caller. A caller that was handed
  the stored promise receives its outcome when it settles (\<open>resume\<close> of a joined
  caller). When and how an acquisition ends is up to the network (\<open>settle\<close>). Promises
  are numbered in the order in which they are created.
\<close>

datatype caller =
    Joined nat  \<comment> \<open>found the promise in the map and returned it (line 144)\<close>
  | Owner string nat  \<comment> \<open>registered the promise and waits at \<^verbatim>\<open>await tokenPromise\<close>\<close>
  | Returned "error + string"

record sched =
  pending :: "string \<rightharpoonup> nat"  \<comment> \<open>\<^verbatim>\<open>pendingTokenRequests\<close>\<close>
  promises :: "(string \<times> (error + string) option) list"
    \<comment> \<open>the acquisitions started so far: key, and outcome once settled\<close>
  callers :: "caller list"















definition clones :: "request \<Rightarrow> request set" where
  \<comment> \<open>what \<^verbatim>\<open>cloneRequestWithAuth\<close> can return for a request\<close>
  "clones request' = {r. \<exists>t. cloneRequestWithAuth request' t = Inr r}"

definition with_bearer :: "request \<Rightarrow> string \<Rightarrow> request" where
  \<comment> \<open>the request with its \<^verbatim>\<open>Authorization\<close> header replaced by the normalized bearer
      credential, and the properties that are not copied at their defaults\<close>
  "with_bearer r t =
     r\<lparr>headers := replace_header (headers r) ''Authorization'' (normalize_value (''Bearer '' @ t)),
       keepalive := False\<rparr>"

definition post_request :: request where
  \<comment> \<open>a call with a body\<close>
  "post_request = demo_request\<lparr>http_method := ''POST'', body := Some ''ping''\<rparr>"

definition blank_token_env :: env where
  \<comment> \<open>the sample deployment with a token endpoint that issues the empty string\<close>
  "blank_token_env =
     demo_env\<lparr>fetchFn := (\<lambda>history c.
       case c of
         FetchPost u form \<Rightarrow>
           if u = demo_token_endpoint
           then Inr (json_response (JsonATR (demo_token_response\<lparr>access_token := []\<rparr>)))
           else demo_fetchFn history c
       | _ \<Rightarrow> demo_fetchFn history c)\<rparr>"

definition demo_challenge_header :: string where
  "demo_challenge_header = ''Bearer resource_metadata='' @ [dquote] @ demo_metadata_url @ [dquote]"

definition acquired_state :: state where
  \<comment> \<open>the state after a first acquisition on the sample deployment\<close>
  "acquired_state =
     snd (acquireAccessToken demo_env ''https://mcp.example.com'' demo_metadata_url None init_state)"

definition steady :: "'a async \<Rightarrow> bool" where
  \<comment> \<open>the computation leaves \<^verbatim>\<open>pendingTokenRequests\<close> as it found it\<close>
  "steady m = (\<forall>s. pendingTokenRequests (snd (m s)) = pendingTokenRequests s)"


section \<open>Basic facts\<close>

lemma await_simps:
  "await (resolve x) f = f x"
  "await (reject e) f = reject e"
  by (auto simp: await_def resolve_def reject_def fun_eq_iff)

lemma scheme_set_param: "scheme (set_param c kv) = scheme c"
  by (cases kv) (simp add: set_param_def)

lemma scheme_foldl_set_param: "scheme (foldl set_param c kvs) = scheme c"
  by (induction kvs arbitrary: c) (simp_all add: scheme_set_param)

lemma scheme_parse: "scheme (parseWwwAuthenticate h) = takeWhile is_word_char h"
  by (simp add: parseWwwAuthenticate_def scheme_foldl_set_param)

section \<open>Short-circuits of the 401 handler\<close>

text \<open>
  Claim C5. When \<^verbatim>\<open>handleUnauthorized\<close> receives a 401 response with no
  \<^verbatim>\<open>WWW-Authenticate\<close> header, or with a header whose parsed scheme is not
  \<^verbatim>\<open>Bearer\<close>, it returns that response and leaves the state as it was: the trace of
  outbound calls has not grown, so no discovery or exchange call was issued. When the
  scheme is \<^verbatim>\<open>Bearer\<close> and the challenge carries no \<^verbatim>\<open>resource_metadata\<close>, it fails
  with the error of the source, again with the state unchanged.
\<close>

theorem handleUnauthorized_short_circuits:
  "(headers_get (response_headers response') challenge_header = None \<longrightarrow>
      handleUnauthorized env request' response' s = (Inr response', s))
   \<and> (\<forall>h. headers_get (response_headers response') challenge_header = Some h \<longrightarrow>
          scheme (parseWwwAuthenticate h) \<noteq> ''Bearer'' \<longrightarrow>
          handleUnauthorized env request' response' s = (Inr response', s))
   \<and> (\<forall>h. headers_get (response_headers response') challenge_header = Some h \<longrightarrow>
          scheme (parseWwwAuthenticate h) = ''Bearer'' \<longrightarrow>
          resource_metadata (parseWwwAuthenticate h) = None \<longrightarrow>
          handleUnauthorized env request' response' s =
            (Inl (Error ''WWW-Authenticate header missing resource_metadata URL''), s))"
proof (intro conjI allI impI)
  assume "headers_get (response_headers response') challenge_header = None"
  then show "handleUnauthorized env request' response' s = (Inr response', s)"
    by (simp add: handleUnauthorized_def resolve_def)
next
  fix h
  assume "headers_get (response_headers response') challenge_header = Some h"
    and "scheme (parseWwwAuthenticate h) \<noteq> ''Bearer''"
  then show "handleUnauthorized env request' response' s = (Inr response', s)"
    by (simp add: handleUnauthorized_def resolve_def Let_def)
next
  fix h
  assume h: "headers_get (response_headers response') challenge_header = Some h"
    and b: "scheme (parseWwwAuthenticate h) = ''Bearer''"
    and m: "resource_metadata (parseWwwAuthenticate h) = None"
  from b have "h \<noteq> []" by (auto simp: scheme_parse)
  with h b m show "handleUnauthorized env request' response' s =
      (Inl (Error ''WWW-Authenticate header missing resource_metadata URL''), s)"
    by (simp add: handleUnauthorized_def reject_def Let_def)
qed

lemmas parser_eval = parseWwwAuthenticate_def match_param_def match_quoted_def is_word_char_def
  is_space_char_def is_value_char_def set_param_def param_value_def

lemmas headers_eval = headers_get_def same_name_def lower_def lower_char_def challenge_header_def

theorem handleUnauthorized_short_circuits_witness:
  "handleUnauthorized demo_env demo_request (plain_response 401 ''Unauthorized'') init_state =
     (Inr (plain_response 401 ''Unauthorized''), init_state)
   \<and> handleUnauthorized demo_env demo_request (challenge_with ''Basic realm=x'') init_state =
     (Inr (challenge_with ''Basic realm=x''), init_state)
   \<and> handleUnauthorized demo_env demo_request (challenge_with ''Bearer realm=x'') init_state =
     (Inl (Error ''WWW-Authenticate header missing resource_metadata URL''), init_state)"
proof -
  have a: "headers_get (response_headers (plain_response 401 ''Unauthorized'')) challenge_header = None"
    by (simp add: plain_response_def headers_eval)
  have b: "headers_get (response_headers (challenge_with ''Basic realm=x'')) challenge_header = Some ''Basic realm=x''"
    by (simp add: challenge_with_def headers_eval)
  have b': "scheme (parseWwwAuthenticate ''Basic realm=x'') \<noteq> ''Bearer''"
    by (simp add: scheme_parse is_word_char_def)
  have c: "headers_get (response_headers (challenge_with ''Bearer realm=x'')) challenge_header = Some ''Bearer realm=x''"
    by (simp add: challenge_with_def headers_eval)
  have c': "scheme (parseWwwAuthenticate ''Bearer realm=x'') = ''Bearer''"
    by (simp add: scheme_parse is_word_char_def)
  have c'': "resource_metadata (parseWwwAuthenticate ''Bearer realm=x'') = None"
    by (simp add: parser_eval)
  show ?thesis
    using handleUnauthorized_short_circuits [of "plain_response 401 ''Unauthorized''" demo_env demo_request init_state]
      handleUnauthorized_short_circuits [of "challenge_with ''Basic realm=x''" demo_env demo_request init_state]
      handleUnauthorized_short_circuits [of "challenge_with ''Bearer realm=x''" demo_env demo_request init_state]
      a b b' c c' c''
    by blast
qed

section \<open>The bearer grant: caching, expiry and the notification hook\<close>

lemma performJwtBearerGrant_ok:
  assumes r: "fetchFn env (trace s) (grant_call env idJag tokenEndpoint) = Inr r"
    and ok: "ok r" and j: "json_body r = Some (JsonATR d)"
  defines "s1 \<equiv> s\<lparr>trace := trace s @ [Fetch (grant_call env idJag tokenEndpoint)]\<rparr>"
  defines "expiresIn \<equiv> (case expires_in d of None \<Rightarrow> 3600 | Some n \<Rightarrow> if n \<noteq> 0 then n else 3600)"
  defines "s2 \<equiv> s1\<lparr>tokenCache := (tokenCache s1)(getResourceUrl env tokenEndpoint \<mapsto>
       \<lparr>token = access_token d, expiresAt = Date_now env (trace s1) + expiresIn * 1000 - 60000\<rparr>)\<rparr>"
  shows "performJwtBearerGrant env idJag tokenEndpoint s =
     await (call_onAccessTokenReceived env d) (\<lambda>_. resolve (access_token d)) s2"
  using r ok j
  by (simp add: performJwtBearerGrant_def grant_call_def await_def call_fetchFn_def Let_def
      response_json_def resolve_def date_now_def cache_set_def s1_def s2_def expiresIn_def)

lemma hook_then_resolve:
  "await (call_onAccessTokenReceived env d) (\<lambda>_. resolve x) s =
     (case onAccessTokenReceived (config env) of
        None \<Rightarrow> (Inr x, s)
      | Some hook \<Rightarrow>
          (case hook (trace s) d of Inl e \<Rightarrow> Inl e | Inr _ \<Rightarrow> Inr x,
           s\<lparr>trace := trace s @ [OnAccessTokenReceived d]\<rparr>))"
  by (simp add: await_def call_onAccessTokenReceived_def resolve_def split: option.splits sum.splits)

lemma hook_then_resolve_cache:
  "tokenCache (snd (await (call_onAccessTokenReceived env d) (\<lambda>_. resolve x) s)) = tokenCache s"
  by (simp add: hook_then_resolve split: option.splits)

lemma failing_hook_exchange:
  "fetchFn failing_hook_env (trace init_state) (grant_call failing_hook_env ''jag'' demo_token_endpoint) =
     Inr (json_response (JsonATR demo_token_response))"
  by (simp add: failing_hook_env_def demo_env_def demo_fetchFn_def grant_call_def demo_token_endpoint_def)

lemma json_response_ok: "ok (json_response j)" "json_body (json_response j) = Some j"
  by (simp_all add: ok_def json_response_def)

text \<open>
  Claim C6. A token cached at time \<open>T\<close> with \<^verbatim>\<open>expires_in\<close> 3600, or with none, gets
  \<open>expiresAt = T + 3600 s - 60 s\<close>, in milliseconds. With no external cache configured,
  \<^verbatim>\<open>getCachedToken\<close>, asked for a key that holds this entry, returns the token when the
  clock reads less than \<open>T + 3540 s\<close> and \<^verbatim>\<open>null\<close> from then on. \<open>T\<close> is the clock after
  the grant's POST, when \<^verbatim>\<open>Date.now()\<close> is read. The key of the entry is the one the code
  stores under, the origin of the token endpoint.
\<close>

theorem cached_token_lifetime:
  assumes "fetchFn env (trace s) (grant_call env idJag tokenEndpoint) = Inr r"
    and "ok r" and "json_body r = Some (JsonATR d)"
    and "expires_in d = Some 3600 \<or> expires_in d = None"
  defines "T \<equiv> Date_now env (trace s @ [Fetch (grant_call env idJag tokenEndpoint)])"
  defines "s' \<equiv> snd (performJwtBearerGrant env idJag tokenEndpoint s)"
  shows "tokenCache s' (getResourceUrl env tokenEndpoint) =
           Some \<lparr>token = access_token d, expiresAt = T + 3600 * 1000 - 60000\<rparr>
         \<and> (\<forall>later k. getCachedAccessToken (config env) = None \<longrightarrow>
               tokenCache later k = tokenCache s' (getResourceUrl env tokenEndpoint) \<longrightarrow>
               getCachedToken env k later =
                 (Inr (if Date_now env (trace later) < T + 3540 * 1000
                       then Some (access_token d) else None), later))"
proof -
  have stored: "tokenCache s' (getResourceUrl env tokenEndpoint) =
      Some \<lparr>token = access_token d, expiresAt = T + 3600 * 1000 - 60000\<rparr>"
    using assms(4)
    by (auto simp: s'_def T_def performJwtBearerGrant_ok [OF assms(1-3)] hook_then_resolve_cache)
  have lookup: "getCachedToken env k later =
      (Inr (if Date_now env (trace later) < T + 3540 * 1000 then Some (access_token d) else None), later)"
    if "getCachedAccessToken (config env) = None"
      and "tokenCache later k = tokenCache s' (getResourceUrl env tokenEndpoint)" for later k
    using that
    by (simp add: stored getCachedToken_def await_def call_getCachedAccessToken_def truthy_def
        cache_get_def date_now_def resolve_def)
  from stored lookup show ?thesis by blast
qed

theorem cached_token_lifetime_witness:
  "tokenCache (snd (performJwtBearerGrant demo_env ''jag'' demo_token_endpoint init_state))
     ''https://auth.example.com'' = Some \<lparr>token = ''good'', expiresAt = 4540000\<rparr>
   \<and> fst (getCachedToken demo_env ''https://auth.example.com''
        (snd (performJwtBearerGrant demo_env ''jag'' demo_token_endpoint init_state))) =
       Inr (Some ''good'')
   \<and> fst (getCachedToken demo_env ''https://auth.example.com''
        ((snd (performJwtBearerGrant demo_env ''jag'' demo_token_endpoint init_state))
           \<lparr>trace := replicate 5 GetIdToken\<rparr>)) = Inr None"
proof -
  let ?s' = "snd (performJwtBearerGrant demo_env ''jag'' demo_token_endpoint init_state)"
  have a: "fetchFn demo_env (trace init_state) (grant_call demo_env ''jag'' demo_token_endpoint) =
      Inr (json_response (JsonATR demo_token_response))"
    by (simp add: demo_env_def demo_fetchFn_def grant_call_def demo_token_endpoint_def)
  have b: "ok (json_response (JsonATR demo_token_response))"
    by (simp add: ok_def json_response_def)
  have c: "json_body (json_response (JsonATR demo_token_response)) = Some (JsonATR demo_token_response)"
    by (simp add: json_response_def)
  have d: "expires_in demo_token_response = Some 3600 \<or> expires_in demo_token_response = None"
    by (simp add: demo_token_response_def)
  have e: "getCachedAccessToken (config demo_env) = None"
    by (simp add: demo_env_def demo_config_def)
  have f: "getResourceUrl demo_env demo_token_endpoint = ''https://auth.example.com''"
    by (simp add: getResourceUrl_def demo_env_def simple_origin_def demo_token_endpoint_def)
  have g: "Date_now demo_env (trace init_state @ [Fetch (grant_call demo_env ''jag'' demo_token_endpoint)]) = 1000000"
    by (simp add: demo_env_def init_state_def)
  have "trace ?s' = [Fetch (grant_call demo_env ''jag'' demo_token_endpoint)]"
    by (subst performJwtBearerGrant_ok [OF a b c])
      (simp add: hook_then_resolve init_state_def demo_env_def demo_config_def)
  then have h: "Date_now demo_env (trace ?s') = 1000000"
    by (simp add: demo_env_def)
  have h': "Date_now demo_env (trace (?s'\<lparr>trace := replicate 5 GetIdToken\<rparr>)) = 5000000"
    by (simp add: demo_env_def)
  have i: "access_token demo_token_response = ''good''"
    by (simp add: demo_token_response_def)
  note life = cached_token_lifetime [OF a b c d, unfolded f g]
  from life have stored: "tokenCache ?s' ''https://auth.example.com'' =
      Some \<lparr>token = ''good'', expiresAt = 4540000\<rparr>"
    by (simp add: i)
  from life e have "getCachedToken demo_env ''https://auth.example.com'' ?s' =
      (Inr (if Date_now demo_env (trace ?s') < 1000000 + 3540 * 1000
            then Some (access_token demo_token_response) else None), ?s')"
    by blast
  then have now: "fst (getCachedToken demo_env ''https://auth.example.com'' ?s') = Inr (Some ''good'')"
    by (simp add: h i)
  from life e have "getCachedToken demo_env ''https://auth.example.com'' (?s'\<lparr>trace := replicate 5 GetIdToken\<rparr>) =
      (Inr (if Date_now demo_env (trace (?s'\<lparr>trace := replicate 5 GetIdToken\<rparr>)) < 1000000 + 3540 * 1000
            then Some (access_token demo_token_response) else None), ?s'\<lparr>trace := replicate 5 GetIdToken\<rparr>)"
    by simp
  then have later: "fst (getCachedToken demo_env ''https://auth.example.com''
      (?s'\<lparr>trace := replicate 5 GetIdToken\<rparr>)) = Inr None"
    by (simp only: h') simp
  from stored now later show ?thesis by blast
qed

text \<open>
  Claim C2, as the code has it. After a successful exchange the hook's outcome is the
  acquisition's outcome: with no hook, or a hook that completes, the caller receives the
  access token; a hook that throws or rejects makes \<^verbatim>\<open>performJwtBearerGrant\<close> fail with
  the hook's error. In every case the token has been stored in the internal cache.
\<close>

theorem hook_outcome_decides_acquisition:
  assumes "fetchFn env (trace s) (grant_call env idJag tokenEndpoint) = Inr r"
    and "ok r" and "json_body r = Some (JsonATR d)"
  defines "history \<equiv> trace s @ [Fetch (grant_call env idJag tokenEndpoint)]"
  shows "fst (performJwtBearerGrant env idJag tokenEndpoint s) =
           (case onAccessTokenReceived (config env) of
              None \<Rightarrow> Inr (access_token d)
            | Some hook \<Rightarrow> (case hook history d of Inl e \<Rightarrow> Inl e | Inr _ \<Rightarrow> Inr (access_token d)))
         \<and> map_option token
               (tokenCache (snd (performJwtBearerGrant env idJag tokenEndpoint s))
                  (getResourceUrl env tokenEndpoint)) = Some (access_token d)"
  unfolding performJwtBearerGrant_ok [OF assms(1-3)] history_def
  by (simp add: hook_then_resolve split: option.splits)

theorem hook_outcome_decides_acquisition_witness:
  "fst (performJwtBearerGrant failing_hook_env ''jag'' demo_token_endpoint init_state) =
     Inl (CallbackRejected ''storage unavailable'')
   \<and> map_option token
        (tokenCache (snd (performJwtBearerGrant failing_hook_env ''jag'' demo_token_endpoint init_state))
           ''https://auth.example.com'') = Some ''good''"
proof -
  have "getResourceUrl failing_hook_env demo_token_endpoint = ''https://auth.example.com''"
    by (simp add: getResourceUrl_def failing_hook_env_def demo_env_def simple_origin_def
        demo_token_endpoint_def)
  moreover have "onAccessTokenReceived (config failing_hook_env) =
      Some (\<lambda>history tokenResponse. Inl (CallbackRejected ''storage unavailable''))"
    by (simp add: failing_hook_env_def demo_env_def)
  moreover have "access_token demo_token_response = ''good''"
    by (simp add: demo_token_response_def)
  ultimately show ?thesis
    using hook_outcome_decides_acquisition [OF failing_hook_exchange json_response_ok]
    by simp
qed

text \<open>
  On the sample deployment with a rejecting hook the exchange answers 200 with the token,
  and both the grant and the caller's \<^verbatim>\<open>fetch\<close> fail with the hook's error.
\<close>

theorem hook_failure_counterexample:
  "fetchFn failing_hook_env (trace init_state) (grant_call failing_hook_env ''jag'' demo_token_endpoint) =
     Inr (json_response (JsonATR demo_token_response))
   \<and> ok (json_response (JsonATR demo_token_response))
   \<and> fst (performJwtBearerGrant failing_hook_env ''jag'' demo_token_endpoint init_state) =
       Inl (CallbackRejected ''storage unavailable'')
   \<and> fst (fetch failing_hook_env demo_request init_state) =
       Inl (CallbackRejected ''storage unavailable'')"
proof -
  have "fst (performJwtBearerGrant failing_hook_env ''jag'' demo_token_endpoint init_state) =
       Inl (CallbackRejected ''storage unavailable'')"
    by code_simp
  moreover have "fst (fetch failing_hook_env demo_request init_state) =
       Inl (CallbackRejected ''storage unavailable'')"
    by code_simp
  ultimately show ?thesis
    using failing_hook_exchange json_response_ok(1) by blast
qed

text \<open>
  Claim C1, evaluated on the sample deployment. The first call to the resource at
  \<^verbatim>\<open>https://mcp.example.com\<close> acquires a token and succeeds. The token is then cached
  under \<^verbatim>\<open>https://auth.example.com\<close>, the origin of the token endpoint; nothing is cached
  under the resource's own origin, and the next lookup for the resource finds no token.
\<close>

theorem cache_key_is_token_endpoint_origin:
  "fst (fetch demo_env demo_request init_state) = Inr (plain_response 200 ''OK'')
   \<and> getResourceUrl demo_env (url demo_request) = ''https://mcp.example.com''
   \<and> tokenCache (snd (fetch demo_env demo_request init_state)) ''https://mcp.example.com'' = None
   \<and> tokenCache (snd (fetch demo_env demo_request init_state)) ''https://auth.example.com'' =
       Some \<lparr>token = ''good'', expiresAt = 9540000\<rparr>
   \<and> fst (getCachedToken demo_env ''https://mcp.example.com''
             (snd (fetch demo_env demo_request init_state))) = Inr None"
proof -
  have a: "fst (fetch demo_env demo_request init_state) = Inr (plain_response 200 ''OK'')"
    by code_simp
  have b: "getResourceUrl demo_env (url demo_request) = ''https://mcp.example.com''"
    by code_simp
  have c: "tokenCache (snd (fetch demo_env demo_request init_state)) ''https://mcp.example.com'' = None"
    by code_simp
  have d: "tokenCache (snd (fetch demo_env demo_request init_state)) ''https://auth.example.com'' =
       Some \<lparr>token = ''good'', expiresAt = 9540000\<rparr>"
    by code_simp
  have e: "fst (getCachedToken demo_env ''https://mcp.example.com''
             (snd (fetch demo_env demo_request init_state))) = Inr None"
    by code_simp
  from a b c d e show ?thesis by blast
qed

section \<open>The scheme test\<close>

lemma lower_char_word:
  assumes "lower_char c \<in> set ''bearer''"
  shows "is_word_char c"
proof (cases "map_of (zip ''ABCDEFGHIJKLMNOPQRSTUVWXYZ'' ''abcdefghijklmnopqrstuvwxyz'') c")
  case None
  with assms have "c \<in> set ''bearer''" by (simp add: lower_char_def)
  then show ?thesis by (auto simp: is_word_char_def)
next
  case (Some l)
  then have "c \<in> set ''ABCDEFGHIJKLMNOPQRSTUVWXYZ''"
    by (auto split: if_splits)
  then show ?thesis by (auto simp: is_word_char_def)
qed

lemma lower_bearer_word:
  assumes "lower w = ''bearer''"
  shows "\<forall>c\<in>set w. is_word_char c"
proof
  fix c assume "c \<in> set w"
  then have "lower_char c \<in> set (lower w)" by (simp add: lower_def)
  with assms show "is_word_char c" by (simp add: lower_char_word)
qed

lemma takeWhile_word_prefix:
  assumes "\<forall>c\<in>set w. is_word_char c" and "rest = [] \<or> \<not> is_word_char (hd rest)"
  shows "takeWhile is_word_char (w @ rest) = w"
  using assms by (cases rest) (simp_all add: takeWhile_append2)

text \<open>
  Claim C9. The scheme test compares with the exact string \<^verbatim>\<open>Bearer\<close>. A header that
  starts with any other spelling of the word (\<^verbatim>\<open>bearer\<close>, \<^verbatim>\<open>BEARER\<close>, ...), followed by
  nothing or by a character that is not a word character, is parsed with that spelling as
  its scheme; \<^verbatim>\<open>handleUnauthorized\<close> then returns the 401 response and leaves the state,
  and with it the trace of outbound calls, as it was: no acquisition starts.
\<close>

theorem scheme_check_is_case_sensitive:
  assumes "headers_get (response_headers response') challenge_header = Some (w @ rest)"
    and "lower w = ''bearer''" and "w \<noteq> ''Bearer''"
    and "rest = [] \<or> \<not> is_word_char (hd rest)"
  shows "scheme (parseWwwAuthenticate (w @ rest)) = w
         \<and> handleUnauthorized env request' response' s = (Inr response', s)"
proof -
  have sch: "scheme (parseWwwAuthenticate (w @ rest)) = w"
    by (simp add: scheme_parse takeWhile_word_prefix [OF lower_bearer_word [OF assms(2)] assms(4)])
  with assms(1,3) have "handleUnauthorized env request' response' s = (Inr response', s)"
    by (simp add: handleUnauthorized_def resolve_def Let_def)
  with sch show ?thesis by simp
qed

theorem scheme_check_is_case_sensitive_witness:
  "scheme (parseWwwAuthenticate (''bearer'' @ '' resource_metadata=https://mcp.example.com/meta'')) = ''bearer''
   \<and> handleUnauthorized demo_env demo_request
        (challenge_with (''bearer'' @ '' resource_metadata=https://mcp.example.com/meta'')) init_state =
       (Inr (challenge_with (''bearer'' @ '' resource_metadata=https://mcp.example.com/meta'')), init_state)
   \<and> scheme (parseWwwAuthenticate (''BEARER'' @ [])) = ''BEARER''
   \<and> handleUnauthorized demo_env demo_request (challenge_with (''BEARER'' @ [])) init_state =
       (Inr (challenge_with (''BEARER'' @ [])), init_state)"
proof -
  have a: "headers_get (response_headers (challenge_with h)) challenge_header = Some h" for h
    by (simp add: challenge_with_def headers_eval)
  have b: "lower ''bearer'' = ''bearer''" "lower ''BEARER'' = ''bearer''"
    by (simp_all add: lower_def lower_char_def)
  have c: "''bearer'' \<noteq> ''Bearer''" "''BEARER'' \<noteq> ''Bearer''" by simp_all
  have d: "'' resource_metadata=https://mcp.example.com/meta'' = []
      \<or> \<not> is_word_char (hd '' resource_metadata=https://mcp.example.com/meta'')"
    by (simp add: is_word_char_def)
  have e: "([]::string) = [] \<or> \<not> is_word_char (hd [])" by simp
  show ?thesis
    using scheme_check_is_case_sensitive [OF a b(1) c(1) d, of demo_env demo_request init_state]
      scheme_check_is_case_sensitive [OF a b(2) c(2) e, of demo_env demo_request init_state]
    by blast
qed

section \<open>Discovery of the authorization server\<close>

lemma try_discovery_eq:
  "try_discovery env u s = (Inr (usable (fetchFn env (trace s) (FetchUrl u))), s\<lparr>trace := trace s @ [Fetch (FetchUrl u)]\<rparr>)"
  by (simp add: try_discovery_def usable_def await_def catch_def call_fetchFn_def response_json_def
      resolve_def reject_def split: sum.splits option.splits)

text \<open>
  Claim C7, as the code has it. \<^verbatim>\<open>discoverAuthorizationServerMetadata\<close> strips one
  trailing slash from the issuer and requests the path
  \<^verbatim>\<open>/.well-known/oauth-authorization-server\<close>. An attempt succeeds when the transport
  answers with a 2xx response whose body parses as JSON; the parsed body is then the
  result and nothing more is requested. When the first attempt does not succeed (a network
  error, a non-2xx answer, or a 2xx answer whose body does not parse), the failure is
  swallowed and the path \<^verbatim>\<open>/.well-known/openid-configuration\<close> is requested, with the same
  rule. When neither attempt succeeds the function fails with an error that names the
  issuer as it was given.
\<close>

theorem discovery_order:
  fixes env issuerUrl s
  defines "first \<equiv> FetchUrl (strip_trailing_slash issuerUrl @ oauth2_path)"
  defines "second \<equiv> FetchUrl (strip_trailing_slash issuerUrl @ oidc_path)"
  defines "a1 \<equiv> usable (fetchFn env (trace s) first)"
  defines "a2 \<equiv> usable (fetchFn env (trace s @ [Fetch first]) second)"
  shows "discoverAuthorizationServerMetadata env issuerUrl s =
           (case a1 of
              Some metadata \<Rightarrow> (Inr metadata, s\<lparr>trace := trace s @ [Fetch first]\<rparr>)
            | None \<Rightarrow>
                (case a2 of
                   Some metadata \<Rightarrow> (Inr metadata, s\<lparr>trace := trace s @ [Fetch first, Fetch second]\<rparr>)
                 | None \<Rightarrow>
                     (Inl (Error (''Failed to discover authorization server metadata for '' @ issuerUrl)),
                      s\<lparr>trace := trace s @ [Fetch first, Fetch second]\<rparr>)))"
  unfolding discoverAuthorizationServerMetadata_def Let_def first_def second_def a1_def a2_def
  by (simp add: await_def try_discovery_eq resolve_def reject_def split: option.splits)

lemma strip_examples:
  "strip_trailing_slash ''https://auth.example.com/'' = ''https://auth.example.com''"
  "strip_trailing_slash ''https://auth.example.com'' = ''https://auth.example.com''"
  "strip_trailing_slash ''https://auth.example.com//'' = ''https://auth.example.com/''"
  by (simp_all add: strip_trailing_slash_def)

text \<open>
  A first answer that is 200 with a body that is not JSON is neither a network error nor
  a non-2xx answer, and still the second path is requested and its document returned.
\<close>

theorem discovery_unparsable_counterexample:
  "fetchFn unparsable_first_env (trace init_state)
      (FetchUrl (strip_trailing_slash ''https://auth.example.com/'' @ oauth2_path)) =
     Inr (plain_response 200 ''OK'')
   \<and> ok (plain_response 200 ''OK'')
   \<and> trace (snd (discoverAuthorizationServerMetadata unparsable_first_env ''https://auth.example.com/'' init_state)) =
       [Fetch (FetchUrl ''https://auth.example.com/.well-known/oauth-authorization-server''),
        Fetch (FetchUrl ''https://auth.example.com/.well-known/openid-configuration'')]
   \<and> fst (discoverAuthorizationServerMetadata unparsable_first_env ''https://auth.example.com/'' init_state) =
       Inr (JsonASM \<lparr>issuer = ''https://auth.example.com'', token_endpoint = Some demo_token_endpoint\<rparr>)"
proof -
  have a: "fetchFn unparsable_first_env (trace init_state)
      (FetchUrl (strip_trailing_slash ''https://auth.example.com/'' @ oauth2_path)) =
     Inr (plain_response 200 ''OK'')"
    by (simp add: unparsable_first_env_def strip_examples oauth2_path_def)
  have b: "ok (plain_response 200 ''OK'')" by (simp add: ok_def plain_response_def)
  have c: "trace (snd (discoverAuthorizationServerMetadata unparsable_first_env ''https://auth.example.com/'' init_state)) =
       [Fetch (FetchUrl ''https://auth.example.com/.well-known/oauth-authorization-server''),
        Fetch (FetchUrl ''https://auth.example.com/.well-known/openid-configuration'')]"
    by code_simp
  have d: "fst (discoverAuthorizationServerMetadata unparsable_first_env ''https://auth.example.com/'' init_state) =
       Inr (JsonASM \<lparr>issuer = ''https://auth.example.com'', token_endpoint = Some demo_token_endpoint\<rparr>)"
    by code_simp
  from a b c d show ?thesis by blast
qed

theorem discovery_order_witness:
  "discoverAuthorizationServerMetadata demo_env ''https://auth.example.com/'' init_state =
     (Inr (JsonASM \<lparr>issuer = ''https://auth.example.com'', token_endpoint = Some demo_token_endpoint\<rparr>),
      init_state\<lparr>trace := trace init_state @
        [Fetch (FetchUrl (strip_trailing_slash ''https://auth.example.com/'' @ oauth2_path))]\<rparr>)
   \<and> discoverAuthorizationServerMetadata demo_env ''https://nowhere.example.com'' init_state =
     (Inl (Error ''Failed to discover authorization server metadata for https://nowhere.example.com''),
      init_state\<lparr>trace := trace init_state @
        [Fetch (FetchUrl (strip_trailing_slash ''https://nowhere.example.com'' @ oauth2_path)),
         Fetch (FetchUrl (strip_trailing_slash ''https://nowhere.example.com'' @ oidc_path))]\<rparr>)"
proof -
  have a: "usable (fetchFn demo_env (trace init_state)
      (FetchUrl (strip_trailing_slash ''https://auth.example.com/'' @ oauth2_path))) =
      Some (JsonASM \<lparr>issuer = ''https://auth.example.com'', token_endpoint = Some demo_token_endpoint\<rparr>)"
    by (simp add: usable_def demo_env_def demo_fetchFn_def strip_examples oauth2_path_def
        demo_metadata_url_def json_response_ok demo_token_endpoint_def)
  have n: "strip_trailing_slash ''https://nowhere.example.com'' = ''https://nowhere.example.com''"
    by (simp add: strip_trailing_slash_def)
  have b: "usable (fetchFn demo_env history (FetchUrl (''https://nowhere.example.com'' @ p))) = None"
    for history p
    by (simp add: usable_def demo_env_def demo_fetchFn_def demo_metadata_url_def ok_def
        plain_response_def)
  show ?thesis
    using discovery_order [of demo_env "''https://auth.example.com/''" init_state]
      discovery_order [of demo_env "''https://nowhere.example.com''" init_state]
    by (simp only: a n b option.case) simp
qed

section \<open>Requests sent to the target resource\<close>

named_theorems quiet_intros

lemma sends_append [simp]: "sends (a @ b) = sends a @ sends b"
  by (simp add: sends_def)

lemma sends_simps [simp]:
  "sends [] = []"
  "sends [Fetch (FetchRequest r)] = [r]"
  "sends [Fetch (FetchUrl u)] = []"
  "sends [Fetch (FetchPost u f)] = []"
  "sends [GetIdToken] = []"
  "sends [GetCachedAccessToken k] = []"
  "sends [OnAccessTokenReceived d] = []"
  by (simp_all add: sends_def)

lemma quiet_resolve [quiet_intros]: "quiet (resolve x)"
  by (simp add: quiet_def resolve_def)

lemma quiet_reject [quiet_intros]: "quiet (reject e)"
  by (simp add: quiet_def reject_def)

lemma quiet_settled [quiet_intros]: "quiet (settled outcome)"
  by (simp add: quiet_def settled_def)

lemma quiet_await [quiet_intros]:
  assumes "quiet m" and "\<And>x. quiet (f x)"
  shows "quiet (await m f)"
  unfolding quiet_def
proof
  fix s
  obtain r s1 where m: "m s = (r, s1)" by (cases "m s")
  from assms(1) m have 1: "sends (trace s1) = sends (trace s)"
    by (auto simp: quiet_def dest: spec [where x = s])
  show "sends (trace (snd (await m f s))) = sends (trace s)"
  proof (cases r)
    case (Inl e)
    with m 1 show ?thesis by (simp add: await_def)
  next
    case (Inr x)
    from assms(2) [of x] have "sends (trace (snd (f x s1))) = sends (trace s1)"
      by (simp add: quiet_def)
    with m 1 Inr show ?thesis by (simp add: await_def)
  qed
qed

lemma quiet_catch [quiet_intros]: "quiet m \<Longrightarrow> quiet (catch m)"
  unfolding quiet_def catch_def
  by (auto split: prod.splits sum.splits dest: spec) (metis snd_conv)+

lemma quiet_try_finally_pending [quiet_intros]:
  "quiet m \<Longrightarrow> quiet (try_finally m (pending_delete k))"
  unfolding quiet_def try_finally_def pending_delete_def
  by (auto split: prod.splits) (metis snd_conv)

lemma quiet_registering [quiet_intros]: "quiet m \<Longrightarrow> quiet (registering k m)"
  unfolding quiet_def registering_def
  by (auto split: prod.splits) (metis snd_conv)

lemma quiet_primitives [quiet_intros]:
  "quiet (call_fetchFn env (FetchUrl u))"
  "quiet (call_fetchFn env (FetchPost u form))"
  "quiet (call_getIdToken env)"
  "quiet (call_onAccessTokenReceived env d)"
  "quiet (call_getCachedAccessToken env k)"
  "quiet (date_now env)"
  "quiet (cache_get k)"
  "quiet (cache_set k entry)"
  "quiet (cache_delete k)"
  "quiet (pending_get k)"
  "quiet (response_json r)"
  by (simp_all add: quiet_def call_fetchFn_def call_getIdToken_def call_onAccessTokenReceived_def
      call_getCachedAccessToken_def date_now_def cache_get_def cache_set_def cache_delete_def
      pending_get_def response_json_def resolve_def reject_def split: option.splits)

lemma quiet_try_discovery [quiet_intros]: "quiet (try_discovery env u)"
  unfolding try_discovery_def by (intro quiet_intros) (simp add: quiet_intros)

lemma quiet_discover [quiet_intros]: "quiet (discoverAuthorizationServerMetadata env issuerUrl)"
  unfolding discoverAuthorizationServerMetadata_def Let_def
  by (intro quiet_intros) (auto split: option.splits intro!: quiet_intros)

lemma quiet_fetchProtectedResourceMetadata [quiet_intros]:
  "quiet (fetchProtectedResourceMetadata env u)"
  unfolding fetchProtectedResourceMetadata_def
  by (intro quiet_intros) (simp add: quiet_intros)

lemma quiet_performTokenExchange [quiet_intros]:
  "quiet (performTokenExchange env audience resource' tokenEndpoint scope')"
  unfolding performTokenExchange_def Let_def
  by (intro quiet_intros) (auto split: json.splits intro!: quiet_intros)

lemma quiet_performJwtBearerGrant [quiet_intros]:
  "quiet (performJwtBearerGrant env idJag tokenEndpoint)"
  unfolding performJwtBearerGrant_def Let_def
  by (intro quiet_intros) (auto split: json.splits intro!: quiet_intros)

lemma quiet_performTokenAcquisition [quiet_intros]:
  "quiet (performTokenAcquisition env resourceUrl metadataUrl scope')"
  unfolding performTokenAcquisition_def
  by (intro quiet_intros)
    (auto split: json.splits option.splits list.splits intro!: quiet_intros)

lemma quiet_acquireAccessToken [quiet_intros]:
  "quiet (acquireAccessToken env resourceUrl metadataUrl scope')"
  unfolding acquireAccessToken_def
  by (intro quiet_intros) (auto split: option.splits intro!: quiet_intros)

lemma quiet_getCachedToken [quiet_intros]: "quiet (getCachedToken env resourceUrl)"
  unfolding getCachedToken_def
  by (intro quiet_intros) (auto split: option.splits intro!: quiet_intros)

lemma emits_quiet: "quiet m \<Longrightarrow> emits m k A"
  by (simp add: quiet_def emits_def)

lemma emits_mono: "emits m k A \<Longrightarrow> k \<le> k' \<Longrightarrow> emits m k' A"
  unfolding emits_def by (meson le_trans)

lemma emits_send: "r \<in> A \<Longrightarrow> emits (call_fetchFn env (FetchRequest r)) (Suc 0) A"
  by (simp add: emits_def call_fetchFn_def)

lemma emits_await_quiet:
  assumes "quiet m" and "\<And>x. emits (f x) k A"
  shows "emits (await m f) k A"
  unfolding emits_def
proof
  fix s
  obtain r s1 where m: "m s = (r, s1)" by (cases "m s")
  from assms(1) m have 1: "sends (trace s1) = sends (trace s)"
    by (auto simp: quiet_def dest: spec [where x = s])
  show "\<exists>new. sends (trace (snd (await m f s))) = sends (trace s) @ new \<and> length new \<le> k \<and> set new \<subseteq> A"
  proof (cases r)
    case (Inl e)
    with m 1 show ?thesis by (simp add: await_def)
  next
    case (Inr x)
    from assms(2) [of x] obtain new where
      "sends (trace (snd (f x s1))) = sends (trace s1) @ new" "length new \<le> k" "set new \<subseteq> A"
      unfolding emits_def by blast
    with m 1 Inr show ?thesis by (simp add: await_def)
  qed
qed

lemma emits_await_send:
  assumes "r \<in> A" and "\<And>x. emits (f x) k A"
  shows "emits (await (call_fetchFn env (FetchRequest r)) f) (Suc k) A"
  unfolding emits_def
proof
  fix s :: state
  let ?s1 = "s\<lparr>trace := trace s @ [Fetch (FetchRequest r)]\<rparr>"
  show "\<exists>new. sends (trace (snd (await (call_fetchFn env (FetchRequest r)) f s))) =
      sends (trace s) @ new \<and> length new \<le> Suc k \<and> set new \<subseteq> A"
  proof (cases "fetchFn env (trace s) (FetchRequest r)")
    case (Inl e)
    with assms(1) show ?thesis
      by (auto simp: await_def call_fetchFn_def intro!: exI [where x = "[r]"])
  next
    case (Inr x)
    from assms(2) [of x] obtain new where
      "sends (trace (snd (f x ?s1))) = sends (trace ?s1) @ new" "length new \<le> k" "set new \<subseteq> A"
      unfolding emits_def by blast
    with Inr assms(1) show ?thesis
      by (auto simp: await_def call_fetchFn_def intro!: exI [where x = "r # new"])
  qed
qed

lemma quiet_try_sync [quiet_intros]: "quiet (try_sync x)"
  by (simp add: quiet_def try_sync_def)

lemma emits_resolve: "emits (resolve x) k A"
  by (rule emits_quiet) (rule quiet_resolve)

lemma emits_reject: "emits (reject e) k A"
  by (rule emits_quiet) (rule quiet_reject)

lemma await_try_sync:
  "await (try_sync (Inl e)) f = reject e"
  "await (try_sync (Inr r)) f = f r"
  by (simp_all add: fun_eq_iff await_def try_sync_def reject_def)

lemma emits_clone_send:
  assumes "\<And>r. x = Inr r \<Longrightarrow> r \<in> A" and "\<And>y. emits (f y) k A"
  shows "emits (await (try_sync x) (\<lambda>r. await (call_fetchFn env (FetchRequest r)) f)) (Suc k) A"
proof (cases x)
  case (Inl e)
  then show ?thesis by (simp add: await_try_sync emits_reject)
next
  case (Inr r)
  from emits_await_send [OF assms(1) [OF Inr] assms(2)] Inr show ?thesis
    by (simp add: await_try_sync)
qed

lemma emits_clone_send_last:
  assumes "\<And>r. x = Inr r \<Longrightarrow> r \<in> A"
  shows "emits (await (try_sync x) (\<lambda>r. call_fetchFn env (FetchRequest r))) (Suc 0) A"
proof (cases x)
  case (Inl e)
  then show ?thesis by (simp add: await_try_sync emits_reject)
next
  case (Inr r)
  from emits_send [OF assms [OF Inr]] Inr show ?thesis
    by (simp add: await_try_sync)
qed

lemma clonesI: "cloneRequestWithAuth request' t = Inr r \<Longrightarrow> r \<in> clones request'"
  by (auto simp: clones_def)

lemma emits_retry:
  assumes "clones request' \<subseteq> A"
  shows "emits (await (acquireAccessToken env k u sc)
           (\<lambda>accessToken.
              await (try_sync (cloneRequestWithAuth request' accessToken))
                (\<lambda>requestWithAuth. call_fetchFn env (FetchRequest requestWithAuth))))
         (Suc 0) A"
proof (rule emits_await_quiet [OF quiet_acquireAccessToken])
  fix x
  show "emits (await (try_sync (cloneRequestWithAuth request' x))
      (\<lambda>requestWithAuth. call_fetchFn env (FetchRequest requestWithAuth))) (Suc 0) A"
    by (rule emits_clone_send_last) (use assms clonesI in blast)
qed

lemma emits_handleUnauthorized:
  assumes "clones request' \<subseteq> A"
  shows "emits (handleUnauthorized env request' response') (Suc 0) A"
  unfolding handleUnauthorized_def Let_def
  by (simp add: emits_resolve emits_reject emits_retry [OF assms] split: option.splits)

lemma emits_send_bare:
  assumes "request' \<in> A" and "clones request' \<subseteq> A"
  shows "emits (send_bare env request') (Suc (Suc 0)) A"
  unfolding send_bare_def
  by (rule emits_await_send [OF assms(1)])
    (simp add: emits_resolve emits_handleUnauthorized [OF assms(2)])

lemma emits_after_cached_attempt:
  assumes "request' \<in> A" and "clones request' \<subseteq> A"
  shows "emits (if \<not> isUnauthorized x then resolve x
           else await (cache_delete k) (\<lambda>_. send_bare env request')) (Suc (Suc 0)) A"
proof -
  have "emits (await (cache_delete k) (\<lambda>_. send_bare env request')) (Suc (Suc 0)) A"
    by (rule emits_await_quiet [OF quiet_primitives(9)]) (rule emits_send_bare [OF assms])
  then show ?thesis by (simp add: emits_resolve)
qed

lemma emits_cached_attempt:
  assumes "request' \<in> A" and "clones request' \<subseteq> A"
  shows "emits (await (try_sync (cloneRequestWithAuth request' t)) (\<lambda>requestWithAuth.
           await (call_fetchFn env (FetchRequest requestWithAuth)) (\<lambda>response'.
             if \<not> isUnauthorized response' then resolve response'
             else await (cache_delete k) (\<lambda>_. send_bare env request'))))
         (Suc (Suc (Suc 0))) A"
  by (rule emits_clone_send)
    (use assms(2) clonesI in blast, rule emits_after_cached_attempt [OF assms])

lemma emits_fetch:
  assumes "request' \<in> A" and "clones request' \<subseteq> A"
  shows "emits (fetch env request') (Suc (Suc (Suc 0))) A"
proof -
  have bare3: "emits (send_bare env request') (Suc (Suc (Suc 0))) A"
    by (rule emits_mono [OF emits_send_bare [OF assms]]) simp
  show ?thesis
    unfolding fetch_def Let_def
    by (rule emits_await_quiet [OF quiet_getCachedToken])
      (simp add: bare3 emits_cached_attempt [OF assms] split: option.splits)
qed

lemma fetch_without_hit:
  assumes "\<not> cache_hit env request' s"
  shows "\<exists>new. sends (trace (snd (fetch env request' s))) = sends (trace s) @ new
           \<and> length new \<le> 2 \<and> set new \<subseteq> insert request' (clones request')"
proof -
  let ?A = "insert request' (clones request')"
  let ?k = "getResourceUrl env (url request')"
  obtain r s1 where g: "getCachedToken env ?k s = (r, s1)" by (cases "getCachedToken env ?k s")
  from quiet_getCachedToken [of env ?k] g have q: "sends (trace s1) = sends (trace s)"
    by (auto simp: quiet_def dest: spec [where x = s])
  have bare: "emits (send_bare env request') (Suc (Suc 0)) ?A"
    by (rule emits_send_bare) auto
  then obtain new where new: "sends (trace (snd (send_bare env request' s1))) = sends (trace s1) @ new"
    "length new \<le> 2" "set new \<subseteq> ?A"
    unfolding emits_def by (metis numeral_2_eq_2)
  show ?thesis
  proof (cases r)
    case (Inl e)
    with g q show ?thesis by (simp add: fetch_def Let_def await_def)
  next
    case (Inr c)
    with assms g have "c = None \<or> c = Some []"
      by (auto simp: cache_hit_def split: option.splits)
    with g Inr have "fetch env request' s = send_bare env request' s1"
      by (auto simp: fetch_def Let_def await_def)
    with new q show ?thesis by auto
  qed
qed

text \<open>
  Claim C3, as the code has it. One call of \<^verbatim>\<open>fetch\<close> hands at most three requests for
  the target resource to the transport: the attempt with the cached token, the request as
  the caller made it, and the retry with the acquired token. A call that finds no cached
  token sends at most two. The calls of discovery and exchange go out as URL fetches and
  form posts and are not among these.
\<close>

theorem fetch_sends_at_most_three:
  "\<exists>new. sends (trace (snd (fetch env request' s))) = sends (trace s) @ new
     \<and> length new \<le> 3 \<and> (\<not> cache_hit env request' s \<longrightarrow> length new \<le> 2)"
proof -
  have "emits (fetch env request') (Suc (Suc (Suc 0))) (insert request' (clones request'))"
    by (rule emits_fetch) auto
  then obtain new where new: "sends (trace (snd (fetch env request' s))) = sends (trace s) @ new"
    "length new \<le> 3"
    unfolding emits_def by (metis numeral_3_eq_3)
  show ?thesis
  proof (cases "cache_hit env request' s")
    case True
    with new show ?thesis by blast
  next
    case False
    from fetch_without_hit [OF False] obtain new' where
      "sends (trace (snd (fetch env request' s))) = sends (trace s) @ new'" "length new' \<le> 2"
      by blast
    then show ?thesis by (intro exI [where x = new']) simp
  qed
qed

lemma demo_no_hit: "\<not> cache_hit demo_env demo_request init_state"
  by code_simp

theorem fetch_sends_at_most_three_witness:
  "length (sends (trace (snd (fetch demo_env demo_request init_state)))) \<le> 2
   \<and> length (sends (trace (snd (fetch demo_env demo_request stale_state)))) \<le> 3"
proof -
  have a: "sends (trace init_state) = []" "sends (trace stale_state) = []"
    by (simp_all add: init_state_def stale_state_def)
  from fetch_sends_at_most_three [of demo_env demo_request init_state] demo_no_hit a(1)
  have "length (sends (trace (snd (fetch demo_env demo_request init_state)))) \<le> 2"
    by auto
  moreover from fetch_sends_at_most_three [of demo_env demo_request stale_state] a(2)
  have "length (sends (trace (snd (fetch demo_env demo_request stale_state)))) \<le> 3"
    by auto
  ultimately show ?thesis by blast
qed

text \<open>
  With a stale token in the cache the resource is called three times: the cached token is
  attached and answered 401, the entry is evicted, the bare request is answered 401, a
  token is acquired and the retry succeeds.
\<close>

theorem three_sends_counterexample:
  "sends (trace stale_state) = []
   \<and> cloneRequestWithAuth demo_request ''stale'' = Inr (with_bearer demo_request ''stale'')
   \<and> cloneRequestWithAuth demo_request ''good'' = Inr (with_bearer demo_request ''good'')
   \<and> sends (trace (snd (fetch demo_env demo_request stale_state))) =
       [with_bearer demo_request ''stale'', demo_request, with_bearer demo_request ''good'']
   \<and> length (sends (trace (snd (fetch demo_env demo_request stale_state)))) = 3
   \<and> fst (fetch demo_env demo_request stale_state) = Inr (plain_response 200 ''OK'')"
proof -
  have a: "sends (trace stale_state) = []"
    by (simp add: init_state_def stale_state_def)
  have b: "cloneRequestWithAuth demo_request ''stale'' = Inr (with_bearer demo_request ''stale'')"
    "cloneRequestWithAuth demo_request ''good'' = Inr (with_bearer demo_request ''good'')"
    by code_simp+
  have c: "sends (trace (snd (fetch demo_env demo_request stale_state))) =
       [with_bearer demo_request ''stale'', demo_request, with_bearer demo_request ''good'']"
    by code_simp
  have d: "fst (fetch demo_env demo_request stale_state) = Inr (plain_response 200 ''OK'')"
    by code_simp
  from a b c d show ?thesis by simp
qed

lemma same_name_refl [simp]: "same_name a a"
  by (simp add: same_name_def)

lemma replace_header_keeps_others:
  "filter (\<lambda>h. \<not> same_name (fst h) name) (replace_header hs name v) =
   filter (\<lambda>h. \<not> same_name (fst h) name) hs"
  by (induction hs) auto

lemma replace_header_named:
  "\<exists>n. same_name n name \<and> filter (\<lambda>h. same_name (fst h) name) (replace_header hs name v) = [(n, v)]"
proof (induction hs)
  case Nil
  show ?case by (rule exI [where x = name]) simp
next
  case (Cons h hs)
  show ?case
  proof (cases "same_name (fst h) name")
    case True
    then show ?thesis
      by (intro exI [where x = "fst h"]) (simp add: filter_empty_conv)
  next
    case False
    with Cons show ?thesis by simp
  qed
qed

lemma headers_get_replace: "headers_get (replace_header hs name v) name = Some v"
proof -
  from replace_header_named [of name hs v] obtain n where
    "filter (\<lambda>h. same_name (fst h) name) (replace_header hs name v) = [(n, v)]" by blast
  then show ?thesis by (simp add: headers_get_def)
qed

lemma headers_get_replace_other:
  assumes "\<not> same_name n name"
  shows "headers_get (replace_header hs name v) n = headers_get hs n"
proof -
  have "filter (\<lambda>h. same_name (fst h) n) (replace_header hs name v) = filter (\<lambda>h. same_name (fst h) n) hs"
    using assms by (induction hs) (auto simp: same_name_def intro: filter_cong)
  then show ?thesis by (simp add: headers_get_def)
qed

lemma normalize_bearer:
  assumes "t \<noteq> []" and "\<not> is_http_whitespace (last t)"
  shows "normalize_value (''Bearer '' @ t) = ''Bearer '' @ t"
proof -
  have front: "dropWhile is_http_whitespace (''Bearer '' @ t) = ''Bearer '' @ t"
    by (simp add: is_http_whitespace_def)
  from assms obtain c r where r: "rev (''Bearer '' @ t) = c # r" "\<not> is_http_whitespace c"
    by (cases t rule: rev_cases) auto
  then have "dropWhile is_http_whitespace (rev (''Bearer '' @ t)) = rev (''Bearer '' @ t)"
    by simp
  with front show ?thesis by (simp only: normalize_value_def rev_rev_ident)
qed

lemma cloneRequestWithAuth_no_body:
  assumes "body request' = None"
  shows "cloneRequestWithAuth request' t =
     (if valid_value (normalize_value (''Bearer '' @ t))
      then Inr (request'\<lparr>headers := replace_header (headers request') ''Authorization''
                                     (normalize_value (''Bearer '' @ t)),
                        keepalive := False\<rparr>)
      else Inl (TypeError ''Headers.set: invalid header value''))"
  using assms by (simp add: cloneRequestWithAuth_def headers_set_def Let_def)

lemma cached_attempt_first:
  assumes g: "getCachedToken env (getResourceUrl env (url request')) s = (Inr (Some t), s0)"
    and t: "t \<noteq> []" and c: "cloneRequestWithAuth request' t = Inr r"
  shows "\<exists>rest. sends (trace (snd (fetch env request' s))) = sends (trace s) @ r # rest
           \<and> length rest \<le> 2"
proof -
  let ?A = "insert request' (clones request')"
  let ?K = "\<lambda>response'. if \<not> isUnauthorized response' then resolve response'
      else await (cache_delete (getResourceUrl env (url request'))) (\<lambda>_. send_bare env request')"
  let ?s1 = "s0\<lparr>trace := trace s0 @ [Fetch (FetchRequest r)]\<rparr>"
  from quiet_getCachedToken [of env "getResourceUrl env (url request')"] g
  have q: "sends (trace s0) = sends (trace s)"
    by (auto simp: quiet_def dest: spec [where x = s])
  have f: "fetch env request' s = await (call_fetchFn env (FetchRequest r)) ?K s0"
    using g t c by (simp add: fetch_def Let_def await_def try_sync_def)
  have K: "emits (?K x) (Suc (Suc 0)) ?A" for x
    by (rule emits_after_cached_attempt) auto
  show ?thesis
  proof (cases "fetchFn env (trace s0) (FetchRequest r)")
    case (Inl e)
    with f q show ?thesis by (simp add: await_def call_fetchFn_def)
  next
    case (Inr x)
    from K [of x] obtain new where
      "sends (trace (snd (?K x ?s1))) = sends (trace ?s1) @ new" "length new \<le> 2"
      unfolding emits_def by (metis numeral_2_eq_2)
    with f q Inr show ?thesis
      by (intro exI [where x = new]) (simp add: await_def call_fetchFn_def)
  qed
qed

lemma retry_with_acquired:
  assumes "headers_get (response_headers response') challenge_header = Some h"
    and "scheme (parseWwwAuthenticate h) = ''Bearer''"
    and "resource_metadata (parseWwwAuthenticate h) = Some u" and "u \<noteq> []"
    and "acquireAccessToken env (getResourceUrl env (url request')) u
           (scope (parseWwwAuthenticate h)) s = (Inr tok, s1)"
    and "cloneRequestWithAuth request' tok = Inr r"
  shows "handleUnauthorized env request' response' s =
     (fetchFn env (trace s1) (FetchRequest r), s1\<lparr>trace := trace s1 @ [Fetch (FetchRequest r)]\<rparr>)"
proof -
  from assms(2) have "h \<noteq> []" by (auto simp: scheme_parse)
  with assms show ?thesis
    by (simp add: handleUnauthorized_def Let_def await_def try_sync_def call_fetchFn_def)
qed

text \<open>
  Claim C10, as the code has it, for a caller's request without a body. Every request
  that \<^verbatim>\<open>fetch\<close> hands to the transport for the target resource is the caller's request
  or a clone of it made by \<^verbatim>\<open>cloneRequestWithAuth\<close>. When the cache lookup returns a
  token, the first request sent is the clone made with that very token; the retry after a
  401 is the clone made with the very token that \<^verbatim>\<open>acquireAccessToken\<close> returned. A clone
  has the URL, the method and the (absent) body of the original; its \<^verbatim>\<open>Authorization\<close>
  header is \<^verbatim>\<open>Bearer\<close>, a space and the token, stripped of leading and trailing HTTP
  whitespace, whatever the caller had put there, and the headers of every other name are
  those of the original, in the same order. For a non-empty token that does not end in
  whitespace the header is exactly \<^verbatim>\<open>Bearer\<close>, a space and the token. The clone throws
  when the stripped value holds NUL, CR or LF, and only then.
\<close>

theorem authenticated_requests_frame:
  assumes "body request' = None"
  shows "(\<exists>new. sends (trace (snd (fetch env request' s))) = sends (trace s) @ new
      \<and> (\<forall>r\<in>set new. r = request' \<or> (\<exists>t. cloneRequestWithAuth request' t = Inr r)))
   \<and> (\<forall>t s0 r. getCachedToken env (getResourceUrl env (url request')) s = (Inr (Some t), s0) \<longrightarrow>
         t \<noteq> [] \<longrightarrow> cloneRequestWithAuth request' t = Inr r \<longrightarrow>
         (\<exists>rest. sends (trace (snd (fetch env request' s))) = sends (trace s) @ r # rest
            \<and> length rest \<le> 2))
   \<and> (\<forall>h u tok s1 r.
         headers_get (response_headers response') challenge_header = Some h \<longrightarrow>
         scheme (parseWwwAuthenticate h) = ''Bearer'' \<longrightarrow>
         resource_metadata (parseWwwAuthenticate h) = Some u \<longrightarrow> u \<noteq> [] \<longrightarrow>
         acquireAccessToken env (getResourceUrl env (url request')) u
           (scope (parseWwwAuthenticate h)) s = (Inr tok, s1) \<longrightarrow>
         cloneRequestWithAuth request' tok = Inr r \<longrightarrow>
         handleUnauthorized env request' response' s =
           (fetchFn env (trace s1) (FetchRequest r),
            s1\<lparr>trace := trace s1 @ [Fetch (FetchRequest r)]\<rparr>))
   \<and> (\<forall>t. cloneRequestWithAuth request' t =
         (if valid_value (normalize_value (''Bearer '' @ t))
          then Inr (request'\<lparr>headers := replace_header (headers request') ''Authorization''
                                         (normalize_value (''Bearer '' @ t)),
                            keepalive := False\<rparr>)
          else Inl (TypeError ''Headers.set: invalid header value'')))
   \<and> (\<forall>t r. cloneRequestWithAuth request' t = Inr r \<longrightarrow>
         url r = url request' \<and> http_method r = http_method request' \<and> body r = body request'
         \<and> headers_get (headers r) ''Authorization'' = Some (normalize_value (''Bearer '' @ t))
         \<and> filter (\<lambda>h. \<not> same_name (fst h) ''Authorization'') (headers r) =
             filter (\<lambda>h. \<not> same_name (fst h) ''Authorization'') (headers request')
         \<and> (\<forall>n. \<not> same_name n ''Authorization'' \<longrightarrow>
               headers_get (headers r) n = headers_get (headers request') n))
   \<and> (\<forall>t. t \<noteq> [] \<longrightarrow> \<not> is_http_whitespace (last t) \<longrightarrow>
         normalize_value (''Bearer '' @ t) = ''Bearer '' @ t)"
proof -
  have "emits (fetch env request') (Suc (Suc (Suc 0))) (insert request' (clones request'))"
    by (rule emits_fetch) auto
  then obtain new where "sends (trace (snd (fetch env request' s))) = sends (trace s) @ new"
    "set new \<subseteq> insert request' (clones request')"
    unfolding emits_def by blast
  then have 1: "\<exists>new. sends (trace (snd (fetch env request' s))) = sends (trace s) @ new
      \<and> (\<forall>r\<in>set new. r = request' \<or> (\<exists>t. cloneRequestWithAuth request' t = Inr r))"
    by (intro exI [where x = new]) (auto simp: clones_def)
  have 2: "\<forall>t s0 r. getCachedToken env (getResourceUrl env (url request')) s = (Inr (Some t), s0) \<longrightarrow>
         t \<noteq> [] \<longrightarrow> cloneRequestWithAuth request' t = Inr r \<longrightarrow>
         (\<exists>rest. sends (trace (snd (fetch env request' s))) = sends (trace s) @ r # rest
            \<and> length rest \<le> 2)"
    using cached_attempt_first by blast
  have 3: "\<forall>h u tok s1 r.
         headers_get (response_headers response') challenge_header = Some h \<longrightarrow>
         scheme (parseWwwAuthenticate h) = ''Bearer'' \<longrightarrow>
         resource_metadata (parseWwwAuthenticate h) = Some u \<longrightarrow> u \<noteq> [] \<longrightarrow>
         acquireAccessToken env (getResourceUrl env (url request')) u
           (scope (parseWwwAuthenticate h)) s = (Inr tok, s1) \<longrightarrow>
         cloneRequestWithAuth request' tok = Inr r \<longrightarrow>
         handleUnauthorized env request' response' s =
           (fetchFn env (trace s1) (FetchRequest r),
            s1\<lparr>trace := trace s1 @ [Fetch (FetchRequest r)]\<rparr>)"
    using retry_with_acquired by blast
  note 4 = cloneRequestWithAuth_no_body [OF assms]
  have 5: "url r = url request' \<and> http_method r = http_method request' \<and> body r = body request'
         \<and> headers_get (headers r) ''Authorization'' = Some (normalize_value (''Bearer '' @ t))
         \<and> filter (\<lambda>h. \<not> same_name (fst h) ''Authorization'') (headers r) =
             filter (\<lambda>h. \<not> same_name (fst h) ''Authorization'') (headers request')
         \<and> (\<forall>n. \<not> same_name n ''Authorization'' \<longrightarrow>
               headers_get (headers r) n = headers_get (headers request') n)"
    if "cloneRequestWithAuth request' t = Inr r" for t r
  proof -
    from that have "r = request'\<lparr>headers := replace_header (headers request') ''Authorization''
        (normalize_value (''Bearer '' @ t)), keepalive := False\<rparr>"
      by (simp add: 4 split: if_splits)
    then show ?thesis
      by (simp add: headers_get_replace replace_header_keeps_others headers_get_replace_other)
  qed
  have 6: "\<forall>t. t \<noteq> [] \<longrightarrow> \<not> is_http_whitespace (last t) \<longrightarrow>
         normalize_value (''Bearer '' @ t) = ''Bearer '' @ t"
    using normalize_bearer by blast
  from 1 2 3 4 5 6 show ?thesis by blast
qed

lemma authorized_request_facts:
  "body authorized_request = None"
  "getResourceUrl demo_env (url authorized_request) = ''https://mcp.example.com''"
  "cloneRequestWithAuth authorized_request ''stale'' = Inr (with_bearer authorized_request ''stale'')"
  "cloneRequestWithAuth authorized_request ''good'' = Inr (with_bearer authorized_request ''good'')"
  "headers (with_bearer authorized_request ''good'') =
     [(''authorization'', ''Bearer good''), (''Accept'', ''text/plain'')]"
  by code_simp+

lemma stale_lookup:
  "getCachedToken demo_env ''https://mcp.example.com'' stale_state = (Inr (Some ''stale''), stale_state)"
  by (simp add: getCachedToken_def await_def call_getCachedAccessToken_def demo_env_def
      demo_config_def truthy_def cache_get_def date_now_def resolve_def stale_state_def
      init_state_def)

lemma demo_challenge_facts:
  "headers_get (response_headers demo_challenge) challenge_header = Some demo_challenge_header"
  "scheme (parseWwwAuthenticate demo_challenge_header) = ''Bearer''"
  "resource_metadata (parseWwwAuthenticate demo_challenge_header) = Some demo_metadata_url"
  "scope (parseWwwAuthenticate demo_challenge_header) = None"
  "demo_metadata_url \<noteq> []"
  by code_simp+

lemma demo_acquisition:
  "acquireAccessToken demo_env ''https://mcp.example.com'' demo_metadata_url None init_state =
     (Inr ''good'', acquired_state)"
proof -
  have "fst (acquireAccessToken demo_env ''https://mcp.example.com'' demo_metadata_url None init_state) =
      Inr ''good''"
    by code_simp
  then show ?thesis by (simp add: acquired_state_def prod_eq_iff)
qed

theorem authenticated_requests_frame_witness:
  "sends (trace (snd (fetch demo_env authorized_request stale_state))) =
     [with_bearer authorized_request ''stale'', authorized_request,
      with_bearer authorized_request ''good'']
   \<and> (\<exists>rest. sends (trace (snd (fetch demo_env authorized_request stale_state))) =
         sends (trace stale_state) @ with_bearer authorized_request ''stale'' # rest
         \<and> length rest \<le> 2)
   \<and> handleUnauthorized demo_env authorized_request demo_challenge init_state =
       (fetchFn demo_env (trace acquired_state) (FetchRequest (with_bearer authorized_request ''good'')),
        acquired_state\<lparr>trace := trace acquired_state @
          [Fetch (FetchRequest (with_bearer authorized_request ''good''))]\<rparr>)
   \<and> headers (with_bearer authorized_request ''good'') =
       [(''authorization'', ''Bearer good''), (''Accept'', ''text/plain'')]
   \<and> headers_get (headers (with_bearer authorized_request ''good'')) ''Authorization'' =
       Some (normalize_value (''Bearer '' @ ''good''))
   \<and> normalize_value (''Bearer '' @ ''good'') = ''Bearer '' @ ''good''
   \<and> headers_get (headers (with_bearer authorized_request ''good'')) ''accept'' =
       headers_get (headers authorized_request) ''accept''"
proof -
  note f = authorized_request_facts
  note d = demo_challenge_facts
  note frame = authenticated_requests_frame [OF f(1)]
  have a: "sends (trace (snd (fetch demo_env authorized_request stale_state))) =
     [with_bearer authorized_request ''stale'', authorized_request,
      with_bearer authorized_request ''good'']"
    by code_simp
  have lookup: "getCachedToken demo_env (getResourceUrl demo_env (url authorized_request)) stale_state =
      (Inr (Some ''stale''), stale_state)"
    by (simp only: f(2) stale_lookup)
  have t: "''stale'' \<noteq> []" by simp
  note cached = frame [of demo_env stale_state, THEN conjunct2, THEN conjunct1, rule_format,
      OF lookup t f(3)]
  have acq: "acquireAccessToken demo_env (getResourceUrl demo_env (url authorized_request))
      demo_metadata_url (scope (parseWwwAuthenticate demo_challenge_header)) init_state =
      (Inr ''good'', acquired_state)"
    by (simp only: f(2) d(4) demo_acquisition)
  note retry = frame [of demo_env init_state demo_challenge, THEN conjunct2, THEN conjunct2,
      THEN conjunct1, rule_format, OF d(1) d(2) d(3) d(5) acq f(4)]
  have n: "\<not> same_name ''accept'' ''Authorization''"
    by (simp add: same_name_def lower_def lower_char_def)
  have w: "''good'' \<noteq> []" "\<not> is_http_whitespace (last ''good'')"
    by (simp_all add: is_http_whitespace_def)
  note props = frame [of demo_env init_state demo_challenge, THEN conjunct2, THEN conjunct2,
      THEN conjunct2, THEN conjunct2, THEN conjunct1, rule_format, OF f(4)]
  from props have e1: "headers_get (headers (with_bearer authorized_request ''good'')) ''Authorization'' =
       Some (normalize_value (''Bearer '' @ ''good''))"
    by blast
  from props n have e2: "headers_get (headers (with_bearer authorized_request ''good'')) ''accept'' =
       headers_get (headers authorized_request) ''accept''"
    by blast
  note g = frame [of demo_env init_state demo_challenge, THEN conjunct2, THEN conjunct2,
      THEN conjunct2, THEN conjunct2, THEN conjunct2, rule_format, OF w]
  from a cached retry f(5) e1 g e2 show ?thesis by blast
qed

text \<open>
  A request with a body gets no authenticated request at all: the clone throws, here
  after the bare request was answered 401 and a token was acquired. And a token that is
  empty is sent as the header \<^verbatim>\<open>Bearer\<close>, which is not \<^verbatim>\<open>Bearer\<close> followed by a space
  and the token.
\<close>

theorem authenticated_requests_counterexample:
  "body post_request = Some ''ping''
   \<and> cloneRequestWithAuth post_request ''good'' =
       Inl (TypeError ''Request: duplex is required for a stream body'')
   \<and> sends (trace (snd (fetch demo_env post_request init_state))) = [post_request]
   \<and> fst (fetch demo_env post_request init_state) =
       Inl (TypeError ''Request: duplex is required for a stream body'')
   \<and> sends (trace (snd (fetch blank_token_env demo_request init_state))) =
       [demo_request, with_bearer demo_request []]
   \<and> headers_get (headers (with_bearer demo_request [])) ''Authorization'' = Some ''Bearer''"
proof -
  have a: "body post_request = Some ''ping''" by code_simp
  have b: "cloneRequestWithAuth post_request ''good'' =
       Inl (TypeError ''Request: duplex is required for a stream body'')"
    by code_simp
  have c: "sends (trace (snd (fetch demo_env post_request init_state))) = [post_request]"
    by code_simp
  have d: "fst (fetch demo_env post_request init_state) =
       Inl (TypeError ''Request: duplex is required for a stream body'')"
    by code_simp
  have e: "sends (trace (snd (fetch blank_token_env demo_request init_state))) =
       [demo_request, with_bearer demo_request []]"
    by code_simp
  have f: "headers_get (headers (with_bearer demo_request [])) ''Authorization'' = Some ''Bearer''"
    by code_simp
  from a b c d e f show ?thesis by blast
qed

section \<open>The challenge parser on well-formed headers\<close>

lemma sep_char_facts:
  assumes "\<not> is_value_char c"
  shows "\<not> is_word_char c" "c \<noteq> CHR ''=''" "c \<noteq> dquote"
  using assms by (auto simp: is_value_char_def is_space_char_def is_word_char_def Let_def)

lemma eq_not_word: "\<not> is_word_char CHR ''=''"
  by (simp add: is_word_char_def)

lemma takeWhile_all: "list_all P w \<Longrightarrow> (t = [] \<or> \<not> P (hd t)) \<Longrightarrow> takeWhile P (w @ t) = w"
  by (cases t) (simp_all add: list_all_iff takeWhile_append2)

lemma dropWhile_all: "list_all P w \<Longrightarrow> (t = [] \<or> \<not> P (hd t)) \<Longrightarrow> dropWhile P (w @ t) = t"
  by (cases t) (simp_all add: list_all_iff dropWhile_append2)

lemma scan_skip_word:
  assumes "list_all is_word_char w"
    and "t = [] \<or> (\<not> is_word_char (hd t) \<and> hd t \<noteq> CHR ''='')"
  shows "scan_params (w @ t) = scan_params t"
  using assms(1)
proof (induction w)
  case Nil
  show ?case by simp
next
  case (Cons c w)
  then have w: "list_all is_word_char (c # w)" by simp
  from assms(2) have t: "t = [] \<or> \<not> is_word_char (hd t)" by blast
  have "match_param (c # w @ t) = None"
    using takeWhile_all [OF w t] dropWhile_all [OF w t] assms(2)
    by (cases t) (simp_all add: match_param_def Let_def)
  with Cons show ?case by simp
qed

lemma scan_skip_sep:
  assumes "list_all (\<lambda>c. \<not> is_value_char c) sp"
  shows "scan_params (sp @ t) = scan_params t"
  using assms
proof (induction sp)
  case Nil
  show ?case by simp
next
  case (Cons c sp)
  then have "\<not> is_word_char c" by (simp add: sep_char_facts)
  then have "match_param (c # sp @ t) = None"
    by (simp add: match_param_def)
  with Cons show ?case by simp
qed

lemma match_quoted_value:
  assumes "dquote \<notin> set v"
  shows "match_quoted (dquote # v @ dquote # t) = Some (v, t)"
proof -
  have "list_all (\<lambda>x. x \<noteq> dquote) v" using assms by (auto simp: list_all_iff)
  then have "takeWhile (\<lambda>x. x \<noteq> dquote) (v @ dquote # t) = v"
    "dropWhile (\<lambda>x. x \<noteq> dquote) (v @ dquote # t) = dquote # t"
    by (simp_all add: takeWhile_all dropWhile_all)
  then show ?thesis by (simp add: match_quoted_def)
qed

lemma match_unquoted_value:
  assumes "list_all (\<lambda>c. is_value_char c \<and> c \<noteq> dquote) v"
    and "t = [] \<or> \<not> is_value_char (hd t)"
  shows "match_quoted (v @ t) = None"
    and "takeWhile is_value_char (v @ t) = v"
    and "dropWhile is_value_char (v @ t) = t"
proof -
  have v: "list_all is_value_char v" using assms(1) by (auto simp: list_all_iff)
  show "takeWhile is_value_char (v @ t) = v" "dropWhile is_value_char (v @ t) = t"
    using v assms(2) by (simp_all add: takeWhile_all dropWhile_all)
  show "match_quoted (v @ t) = None"
  proof (cases v)
    case Nil
    with assms(2) show ?thesis
      by (cases t) (auto simp: match_quoted_def dest: sep_char_facts(3))
  next
    case (Cons c v')
    with assms(1) show ?thesis by (simp add: match_quoted_def)
  qed
qed

lemma match_param_rendered:
  assumes "valid_param p" and "t = [] \<or> \<not> is_value_char (hd t)"
  shows "\<exists>m2 m3. match_param (p_key p @ ''='' @
             (if p_quoted p then [dquote] @ p_value p @ [dquote] else p_value p) @ t) =
           Some (p_key p, m2, m3, t) \<and> param_value m2 m3 = Some (p_value p)"
proof -
  let ?vt = "(if p_quoted p then [dquote] @ p_value p @ [dquote] else p_value p) @ t"
  from assms(1) have key: "p_key p \<noteq> []" "list_all is_word_char (p_key p)"
    by (simp_all add: valid_param_def)
  have tk: "takeWhile is_word_char (p_key p @ CHR ''='' # ?vt) = p_key p"
    and dk: "dropWhile is_word_char (p_key p @ CHR ''='' # ?vt) = CHR ''='' # ?vt"
    using key(2) by (simp_all add: takeWhile_all dropWhile_all eq_not_word)
  show ?thesis
  proof (cases "p_quoted p")
    case True
    with assms(1) have v: "p_value p \<noteq> []" "dquote \<notin> set (p_value p)"
      by (simp_all add: valid_param_def)
    from True have "match_quoted ?vt = Some (p_value p, t)"
      using match_quoted_value [OF v(2)] by simp
    with tk dk key(1) True v(1) show ?thesis
      by (simp add: match_param_def Let_def param_value_def)
  next
    case False
    with assms(1) have v: "list_all (\<lambda>c. is_value_char c \<and> c \<noteq> dquote) (p_value p)"
      by (simp add: valid_param_def)
    from match_unquoted_value [OF v assms(2)] tk dk key(1) False show ?thesis
      by (simp add: match_param_def Let_def param_value_def)
  qed
qed

lemma rendered_rest:
  assumes "list_all valid_param ps"
  shows "concat (map render_param ps) = [] \<or> \<not> is_value_char (hd (concat (map render_param ps)))"
proof (cases ps)
  case Nil
  then show ?thesis by simp
next
  case (Cons p ps')
  with assms have "p_sep p \<noteq> []" "list_all (\<lambda>c. \<not> is_value_char c) (p_sep p)"
    by (simp_all add: valid_param_def)
  then have "\<not> is_value_char (hd (p_sep p))" by (cases "p_sep p") simp_all
  with Cons \<open>p_sep p \<noteq> []\<close> show ?thesis by (simp add: render_param_def)
qed

lemma scan_rendered_params:
  assumes "list_all valid_param ps"
  shows "scan_params (concat (map render_param ps)) = map (\<lambda>p. (p_key p, Some (p_value p))) ps"
  using assms
proof (induction ps)
  case Nil
  show ?case by simp
next
  case (Cons p ps)
  let ?t = "concat (map render_param ps)"
  let ?body = "p_key p @ ''='' @ (if p_quoted p then [dquote] @ p_value p @ [dquote] else p_value p) @ ?t"
  from Cons.prems have p: "valid_param p" and ps: "list_all valid_param ps" by simp_all
  from p have sep: "list_all (\<lambda>c. \<not> is_value_char c) (p_sep p)" and key: "p_key p \<noteq> []"
    by (simp_all add: valid_param_def)
  from match_param_rendered [OF p rendered_rest [OF ps]] obtain m2 m3 where
    m: "match_param ?body = Some (p_key p, m2, m3, ?t)" "param_value m2 m3 = Some (p_value p)"
    by blast
  from key obtain c s where cs: "?body = c # s" by (cases "p_key p") auto
  have "scan_params (concat (map render_param (p # ps))) = scan_params (p_sep p @ ?body)"
    by (simp add: render_param_def)
  also have "\<dots> = scan_params ?body" by (rule scan_skip_sep [OF sep])
  also have "\<dots> = (p_key p, Some (p_value p)) # scan_params ?t"
    using m unfolding cs by simp
  finally show ?case using Cons.IH [OF ps] by simp
qed

lemma scan_rendered:
  assumes "list_all is_word_char sch" and "list_all valid_param ps"
  shows "scan_params (render sch ps) = map (\<lambda>p. (p_key p, Some (p_value p))) ps"
proof -
  from rendered_rest [OF assms(2)]
  have "concat (map render_param ps) = [] \<or>
      (\<not> is_word_char (hd (concat (map render_param ps))) \<and> hd (concat (map render_param ps)) \<noteq> CHR ''='')"
    by (auto dest: sep_char_facts)
  from scan_skip_word [OF assms(1) this] scan_rendered_params [OF assms(2)]
  show ?thesis by (simp add: render_def)
qed

lemma scheme_rendered:
  assumes "list_all is_word_char sch" and "list_all valid_param ps"
  shows "scheme (parseWwwAuthenticate (render sch ps)) = sch"
proof -
  from rendered_rest [OF assms(2)]
  have "concat (map render_param ps) = [] \<or> \<not> is_word_char (hd (concat (map render_param ps)))"
    by (auto dest: sep_char_facts)
  from takeWhile_all [OF assms(1) this] show ?thesis
    by (simp add: scheme_parse render_def)
qed

lemma field_set_param:
  assumes "k \<in> set recognized"
  shows "field k (set_param c (k', v)) = (if k' = k then v else field k c)"
  using assms by (auto simp: recognized_def field_def set_param_def)

lemma field_foldl_set_param:
  assumes "k \<in> set recognized"
  shows "field k (foldl set_param c kvs) =
           (case map_of (rev kvs) k of Some v \<Rightarrow> v | None \<Rightarrow> field k c)"
proof (induction kvs rule: rev_induct)
  case Nil
  show ?case by simp
next
  case (snoc kv kvs)
  obtain k' v where kv: "kv = (k', v)" by (cases kv)
  with snoc show ?case by (simp add: field_set_param [OF assms])
qed

lemma map_of_some:
  "map_of (map (\<lambda>kv. (fst kv, Some (snd kv))) xs) k = map_option Some (map_of xs k)"
  by (induction xs) auto

lemma map_of_some_values:
  "map_of (rev (map (\<lambda>p. (p_key p, Some (p_value p))) ps)) k = map_option Some (declared ps k)"
proof -
  have "rev (map (\<lambda>p. (p_key p, Some (p_value p))) ps) =
      map (\<lambda>kv. (fst kv, Some (snd kv))) (rev (map (\<lambda>p. (p_key p, p_value p)) ps))"
    by (simp add: rev_map)
  then show ?thesis
    by (simp only: declared_def map_of_some)
qed

lemma set_param_unknown: "k \<notin> set recognized \<Longrightarrow> set_param c (k, v) = c"
  by (simp add: recognized_def set_param_def)

lemma foldl_set_param_filter:
  "foldl set_param c (map (\<lambda>p. (p_key p, Some (p_value p))) (filter (\<lambda>p. p_key p \<in> set recognized) ps)) =
   foldl set_param c (map (\<lambda>p. (p_key p, Some (p_value p))) ps)"
  by (induction ps arbitrary: c) (simp_all add: set_param_unknown)

lemma parse_rendered:
  assumes "list_all is_word_char sch" and "list_all valid_param ps"
  shows "parseWwwAuthenticate (render sch ps) =
     foldl set_param
       \<lparr>scheme = sch, realm = None, scope = None, error = None, error_description = None,
        resource_metadata = None\<rparr>
       (map (\<lambda>p. (p_key p, Some (p_value p))) ps)"
proof -
  from scheme_rendered [OF assms] have "takeWhile is_word_char (render sch ps) = sch"
    by (simp add: scheme_parse)
  then show ?thesis
    by (simp add: parseWwwAuthenticate_def scan_rendered [OF assms])
qed

text \<open>
  Claim C8, as the code has it. Take a header made of a scheme of word characters and
  any list of parameters, in any order, each written after a non-empty run of whitespace
  and commas as a key of word characters, \<^verbatim>\<open>=\<close>, and a value that is either quoted,
  non-empty and free of double quotes, or unquoted and free of whitespace, commas and
  double quotes. Then \<^verbatim>\<open>parseWwwAuthenticate\<close> returns the scheme as written and, for
  each of the five recognized keys, the value the header declares for it (the last one
  when a key repeats, none when the key is absent); removing the parameters with other
  keys from the header does not change the result. The function is total: no input
  raises an error.
\<close>

theorem parse_rendered_challenge:
  assumes "list_all is_word_char sch" and "list_all valid_param ps"
  shows "scheme (parseWwwAuthenticate (render sch ps)) = sch
    \<and> (\<forall>k\<in>set recognized. field k (parseWwwAuthenticate (render sch ps)) = declared ps k)
    \<and> parseWwwAuthenticate (render sch ps) =
        parseWwwAuthenticate (render sch (filter (\<lambda>p. p_key p \<in> set recognized) ps))"
proof (intro conjI ballI)
  show "scheme (parseWwwAuthenticate (render sch ps)) = sch"
    by (rule scheme_rendered [OF assms])
next
  fix k assume k: "k \<in> set recognized"
  have "field k \<lparr>scheme = sch, realm = None, scope = None, error = None,
      error_description = None, resource_metadata = None\<rparr> = None"
    by (simp add: field_def)
  then show "field k (parseWwwAuthenticate (render sch ps)) = declared ps k"
    by (simp add: parse_rendered [OF assms] field_foldl_set_param [OF k] map_of_some_values
        split: option.splits)
next
  have "list_all valid_param (filter (\<lambda>p. p_key p \<in> set recognized) ps)"
    using assms(2) by (simp add: list_all_iff)
  from parse_rendered [OF assms] parse_rendered [OF assms(1) this]
  show "parseWwwAuthenticate (render sch ps) =
      parseWwwAuthenticate (render sch (filter (\<lambda>p. p_key p \<in> set recognized) ps))"
    by (simp add: foldl_set_param_filter)
qed

lemma demo_params_valid: "list_all is_word_char ''Bearer''" "list_all valid_param demo_params"
  by (simp_all add: demo_params_def valid_param_def is_word_char_def is_value_char_def
      is_space_char_def)

theorem parse_rendered_challenge_witness:
  "render ''Bearer'' demo_params =
     ''Bearer scope=read, x_trace='' @ [dquote] @ ''abc def'' @ [dquote] @
     '',resource_metadata='' @ [dquote] @ ''https://mcp.example.com/meta'' @ [dquote] @
     '', realm='' @ [dquote] @ ''mcp'' @ [dquote]
   \<and> scheme (parseWwwAuthenticate (render ''Bearer'' demo_params)) = ''Bearer''
   \<and> field ''scope'' (parseWwwAuthenticate (render ''Bearer'' demo_params)) = Some ''read''
   \<and> field ''resource_metadata'' (parseWwwAuthenticate (render ''Bearer'' demo_params)) =
       Some ''https://mcp.example.com/meta''
   \<and> field ''realm'' (parseWwwAuthenticate (render ''Bearer'' demo_params)) = Some ''mcp''
   \<and> field ''error'' (parseWwwAuthenticate (render ''Bearer'' demo_params)) = None"
proof -
  have r: "render ''Bearer'' demo_params =
     ''Bearer scope=read, x_trace='' @ [dquote] @ ''abc def'' @ [dquote] @
     '',resource_metadata='' @ [dquote] @ ''https://mcp.example.com/meta'' @ [dquote] @
     '', realm='' @ [dquote] @ ''mcp'' @ [dquote]"
    by (simp add: render_def render_param_def demo_params_def)
  have k: "''scope'' \<in> set recognized" "''resource_metadata'' \<in> set recognized"
    "''realm'' \<in> set recognized" "''error'' \<in> set recognized"
    by (simp_all add: recognized_def)
  have d: "declared demo_params ''scope'' = Some ''read''"
    "declared demo_params ''resource_metadata'' = Some ''https://mcp.example.com/meta''"
    "declared demo_params ''realm'' = Some ''mcp''"
    "declared demo_params ''error'' = None"
    by (simp_all add: declared_def demo_params_def)
  note main = parse_rendered_challenge [OF demo_params_valid]
  from main have s: "scheme (parseWwwAuthenticate (render ''Bearer'' demo_params)) = ''Bearer''"
    by blast
  from main have "\<forall>k\<in>set recognized.
      field k (parseWwwAuthenticate (render ''Bearer'' demo_params)) = declared demo_params k"
    by blast
  with k d have
    "field ''scope'' (parseWwwAuthenticate (render ''Bearer'' demo_params)) = Some ''read''"
    "field ''resource_metadata'' (parseWwwAuthenticate (render ''Bearer'' demo_params)) =
       Some ''https://mcp.example.com/meta''"
    "field ''realm'' (parseWwwAuthenticate (render ''Bearer'' demo_params)) = Some ''mcp''"
    "field ''error'' (parseWwwAuthenticate (render ''Bearer'' demo_params)) = None"
    by (metis)+
  with r s show ?thesis by blast
qed

text \<open>
  Outside that format the parser departs from the header. A key with a hyphen is read
  from its last word on, so the unknown key \<^verbatim>\<open>x-scope\<close> sets \<^verbatim>\<open>scope\<close>; an empty quoted
  value leaves the field unset; a quoted value with an escaped quote is cut at the
  backslash.
\<close>

theorem parser_counterexample:
  "scope (parseWwwAuthenticate (''Bearer x-scope='' @ [dquote] @ ''a'' @ [dquote])) = Some ''a''
   \<and> realm (parseWwwAuthenticate (''Bearer realm='' @ [dquote, dquote])) = None
   \<and> error_description (parseWwwAuthenticate
        (''Bearer error_description='' @ [dquote] @ ''say '' @ [CHR 0x5C, dquote] @ ''hi'' @
         [CHR 0x5C, dquote, dquote])) = Some (''say '' @ [CHR 0x5C])"
proof -
  have a: "scope (parseWwwAuthenticate (''Bearer x-scope='' @ [dquote] @ ''a'' @ [dquote])) = Some ''a''"
    by code_simp
  have b: "realm (parseWwwAuthenticate (''Bearer realm='' @ [dquote, dquote])) = None"
    by code_simp
  have c: "error_description (parseWwwAuthenticate
        (''Bearer error_description='' @ [dquote] @ ''say '' @ [CHR 0x5C, dquote] @ ''hi'' @
         [CHR 0x5C, dquote, dquote])) = Some (''say '' @ [CHR 0x5C])"
    by code_simp
  from a b c show ?thesis by blast
qed

section \<open>Single flight\<close>





















named_theorems steady_intros

lemma steady_resolve [steady_intros]: "steady (resolve x)"
  by (simp add: steady_def resolve_def)

lemma steady_reject [steady_intros]: "steady (reject e)"
  by (simp add: steady_def reject_def)

lemma steady_await [steady_intros]:
  assumes "steady m" and "\<And>x. steady (f x)"
  shows "steady (await m f)"
  unfolding steady_def
proof
  fix s
  obtain r s1 where m: "m s = (r, s1)" by (cases "m s")
  from assms(1) m have 1: "pendingTokenRequests s1 = pendingTokenRequests s"
    by (auto simp: steady_def dest: spec [where x = s])
  show "pendingTokenRequests (snd (await m f s)) = pendingTokenRequests s"
  proof (cases r)
    case (Inl e)
    with m 1 show ?thesis by (simp add: await_def)
  next
    case (Inr x)
    from assms(2) [of x] have "pendingTokenRequests (snd (f x s1)) = pendingTokenRequests s1"
      by (simp add: steady_def)
    with m 1 Inr show ?thesis by (simp add: await_def)
  qed
qed

lemma steady_catch [steady_intros]: "steady m \<Longrightarrow> steady (catch m)"
  unfolding steady_def catch_def
  by (auto split: prod.splits sum.splits dest: spec) (metis snd_conv)+

lemma steady_primitives [steady_intros]:
  "steady (call_fetchFn env c)"
  "steady (call_getIdToken env)"
  "steady (call_onAccessTokenReceived env d)"
  "steady (date_now env)"
  "steady (cache_set k entry)"
  "steady (response_json r)"
  by (simp_all add: steady_def call_fetchFn_def call_getIdToken_def call_onAccessTokenReceived_def
      date_now_def cache_set_def response_json_def resolve_def reject_def split: option.splits)

lemma steady_try_discovery [steady_intros]: "steady (try_discovery env u)"
  unfolding try_discovery_def by (intro steady_intros) (simp add: steady_intros)

lemma steady_discover [steady_intros]: "steady (discoverAuthorizationServerMetadata env issuerUrl)"
  unfolding discoverAuthorizationServerMetadata_def Let_def
  by (intro steady_intros) (auto split: option.splits intro!: steady_intros)

lemma steady_fetchProtectedResourceMetadata [steady_intros]:
  "steady (fetchProtectedResourceMetadata env u)"
  unfolding fetchProtectedResourceMetadata_def
  by (intro steady_intros) (simp add: steady_intros)

lemma steady_performTokenExchange [steady_intros]:
  "steady (performTokenExchange env audience resource' tokenEndpoint scope')"
  unfolding performTokenExchange_def Let_def
  by (intro steady_intros) (auto split: json.splits intro!: steady_intros)

lemma steady_performJwtBearerGrant [steady_intros]:
  "steady (performJwtBearerGrant env idJag tokenEndpoint)"
  unfolding performJwtBearerGrant_def Let_def
  by (intro steady_intros) (auto split: json.splits intro!: steady_intros)










end
